theory Spec2Isabelle
  imports Main
begin

section \<open>Python values and the falsy-or idiom\<close>

text \<open>
  The values that travel through keyword dictionaries. Objects whose inside the publisher
  never inspects (floats, dates, header mappings, exchange objects, transport messages)
  are \<open>PObj\<close>.
\<close>

datatype 'x pyval = PNone | PBool bool | PInt int | PStr string | PObj 'x

text \<open>Python truthiness: \<open>None\<close>, \<open>False\<close>, \<open>0\<close> and \<open>""\<close> are falsy.\<close>

fun truthy :: "'x pyval \<Rightarrow> bool" where
  "truthy PNone = False"
| "truthy (PBool b) = b"
| "truthy (PInt i) = (i \<noteq> 0)"
| "truthy (PStr s) = (s \<noteq> [])"
| "truthy (PObj x) = True"

text \<open>Truthiness of an \<open>Optional[str]\<close>.\<close>

fun truthy_opt :: "string option \<Rightarrow> bool" where
  "truthy_opt None = False"
| "truthy_opt (Some s) = (s \<noteq> [])"

text \<open>\<open>a or b\<close> on two strings.\<close>

definition or_str :: "string \<Rightarrow> string \<Rightarrow> string" where
  "or_str a b = (if a \<noteq> [] then a else b)"

section \<open>Redis stream subscription descriptor (redis/schemas/stream_sub.py)\<close>

datatype SetupError = SetupError string

datatype warning_category = RuntimeWarning

record StreamSub =
  name :: string
  group :: "string option"
  consumer :: "string option"
  polling_interval :: "int option"
  batch :: bool
  no_ack :: bool
  last_id :: string
  maxlen :: "int option"
  max_records :: "int option"
  max_concurrent :: "int option"

text \<open>
  \<open>StreamSub.__init__\<close>. The result is the raised \<open>SetupError\<close>, or the constructed
  object together with the warnings issued through \<open>warnings.warn\<close>.

  Modelled from the spec: the parent constructor \<open>NameRequired.__init__(stream)\<close> is not
  among the sources; the descriptor pairs a stream name with the group fields, so it
  stores \<open>stream\<close> as \<open>name\<close>.
\<close>

definition StreamSub_init ::
  "string \<Rightarrow> int option \<Rightarrow> string option \<Rightarrow> string option \<Rightarrow> bool \<Rightarrow> bool \<Rightarrow>
   string option \<Rightarrow> int option \<Rightarrow> int option \<Rightarrow> int option \<Rightarrow>
   SetupError + (StreamSub \<times> (string \<times> warning_category) list)" where
  "StreamSub_init stream polling_interval' group' consumer' batch' no_ack' last_id'
       maxlen' max_records' max_concurrent' =
    (if (truthy_opt group' \<and> \<not> truthy_opt consumer') \<or> (\<not> truthy_opt group' \<and> truthy_opt consumer')
     then Inl (SetupError ''You should specify `group` and `consumer` both'')
     else
       let warns = (if truthy_opt group' \<and> truthy_opt consumer' \<and> no_ack'
                    then [(''`no_ack` has no effect with consumer group'', RuntimeWarning)]
                    else []);
           last_id'' = (case last_id' of None \<Rightarrow> ''$'' | Some l \<Rightarrow> l)
       in Inr (\<lparr> name = stream, group = group', consumer = consumer',
                 polling_interval = polling_interval', batch = batch', no_ack = no_ack',
                 last_id = last_id'', maxlen = maxlen', max_records = max_records',
                 max_concurrent = max_concurrent' \<rparr>, warns))"

section \<open>Awaitables and raised exceptions\<close>

text \<open>
  A coroutine that is awaited runs on the state of the outside world (\<open>'w\<close>: what the
  transport, the middlewares and the id generator can observe and change) and either
  raises an exception \<open>'e\<close> or returns a value.
\<close>

type_synonym ('w, 'e, 'a) awaitable = "'w \<Rightarrow> ('e + 'a) \<times> 'w"

text \<open>
  What \<open>publish\<close> and \<open>request\<close> themselves can raise: \<open>AssertionError(NOT_CONNECTED_YET)\<close>,
  an exception that came out of a collaborator, and \<open>AssertionError("unreachable")\<close>.
\<close>

datatype 'e error = NotConnected | Raised 'e | Unreachable

definition raised :: "('e + 'a) \<times> 'w \<Rightarrow> ('e error + 'a) \<times> 'w" where
  "raised r = (case r of (Inl e, w) \<Rightarrow> (Inl (Raised e), w) | (Inr v, w) \<Rightarrow> (Inr v, w))"

section \<open>Destination descriptors\<close>

text \<open>
  Modelled from the spec: the classes \<open>RabbitQueue\<close> and \<open>RabbitExchange\<close> are not among the
  sources. A destination descriptor is a named target with a derivable routing string
  (\<open>.routing\<close>) and a normalisation entry point \<open>validate(nameOrDescriptor)\<close>: a descriptor
  named \<open>orders\<close> with no routing key of its own routes to \<open>orders\<close>. \<open>validate\<close> turns a raw
  name into a descriptor of that name and returns a descriptor as it is.
\<close>

record RabbitQueue =
  queue_name :: string
  queue_routing_key :: string

definition queue_routing :: "RabbitQueue \<Rightarrow> string" where
  "queue_routing q = or_str (queue_routing_key q) (queue_name q)"

record RabbitExchange =
  exchange_name :: string

text \<open>
  Descriptors are objects: a publisher holds a reference to one, and two publishers may
  hold the same reference. The store maps references to descriptors; every reference
  below \<open>next_ref\<close> is allocated.
\<close>

type_synonym ref = nat

record store =
  cells :: "ref \<Rightarrow> RabbitQueue"
  next_ref :: ref

text \<open>The \<open>queue\<close> argument of a call: \<open>Union[RabbitQueue, str, None]\<close>.\<close>

datatype queue_arg = QNone | QStr string | QObj ref

text \<open>\<open>queue or self.queue\<close>: a descriptor object is truthy, \<open>None\<close> and \<open>""\<close> are not.\<close>

fun queue_or :: "queue_arg \<Rightarrow> ref \<Rightarrow> string + ref" where
  "queue_or QNone self_queue = Inr self_queue"
| "queue_or (QStr n) self_queue = (if n \<noteq> [] then Inl n else Inr self_queue)"
| "queue_or (QObj q) self_queue = Inr q"

fun RabbitQueue_validate :: "store \<Rightarrow> string + ref \<Rightarrow> RabbitQueue" where
  "RabbitQueue_validate s (Inl n) = \<lparr> queue_name = n, queue_routing_key = [] \<rparr>"
| "RabbitQueue_validate s (Inr r) = cells s r"

text \<open>\<open>copy.deepcopy\<close> of a descriptor: a fresh object with equal fields.\<close>

definition deepcopy :: "store \<Rightarrow> ref \<Rightarrow> ref \<times> store" where
  "deepcopy s r =
     (next_ref s, s\<lparr> cells := (cells s)(next_ref s := cells s r), next_ref := Suc (next_ref s) \<rparr>)"

section \<open>Collaborators: middlewares and the producer\<close>

type_synonym 'x AnyDict = "string \<rightharpoonup> 'x pyval"

type_synonym ('w, 'e, 'x) AsyncFunc = "'x pyval \<Rightarrow> 'x AnyDict \<Rightarrow> ('w, 'e, 'x pyval) awaitable"

text \<open>A publisher middleware is called as \<open>m(call_next, message, **kwargs)\<close>.\<close>

type_synonym ('w, 'e, 'x) PublisherMiddleware = "('w, 'e, 'x) AsyncFunc \<Rightarrow> ('w, 'e, 'x) AsyncFunc"

text \<open>
  Modelled from the spec: \<open>SourceType\<close> and the parsed message class are not among the
  sources. A parsed message has a decoded body, a source-type tag (Request | Response)
  and the original raw transport message.
\<close>

datatype SourceType = Request | Response

record 'x StreamMessage =
  raw_message :: "'x pyval"
  body :: "'x pyval"
  decoded_body :: "'x pyval"
  source_type :: SourceType

type_synonym ('w, 'e, 'x) ConsumeFunc = "'x StreamMessage \<Rightarrow> ('w, 'e, 'x StreamMessage) awaitable"

text \<open>
  A middleware object, as \<open>request\<close> uses it: an async context manager (\<open>__aenter__\<close>,
  \<open>__aexit__\<close>, whose truthy result suppresses the exception it was given) with the two
  scopes. The class is not among the sources, so its behaviour is a parameter. A broker
  middleware is a factory \<open>m(msg)\<close> of such objects.
\<close>

record ('w, 'e, 'x) BaseMiddleware =
  aenter :: "('w, 'e, unit) awaitable"
  aexit :: "'e option \<Rightarrow> ('w, 'e, bool) awaitable"
  publish_scope :: "('w, 'e, 'x) PublisherMiddleware"
  consume_scope :: "('w, 'e, 'x) ConsumeFunc \<Rightarrow> ('w, 'e, 'x) ConsumeFunc"

type_synonym ('w, 'e, 'x) BrokerMiddleware = "'x pyval \<Rightarrow> ('w, 'e, 'x) BaseMiddleware"

text \<open>The producer, with the four operations the publisher uses; its behaviour is a parameter.\<close>

record ('w, 'e, 'x) AioPikaFastProducer =
  producer_publish :: "('w, 'e, 'x) AsyncFunc"
  producer_request :: "('w, 'e, 'x) AsyncFunc"
  parser :: "'x pyval \<Rightarrow> ('w, 'e, 'x StreamMessage) awaitable"
  decoder :: "'x StreamMessage \<Rightarrow> ('w, 'e, 'x pyval) awaitable"

section \<open>The publisher (rabbit/publisher/usecase.py)\<close>

text \<open>
  The fields \<open>producer\<close>, \<open>middlewares\<close> and \<open>broker_middlewares\<close> are \<open>_producer\<close>,
  \<open>_middlewares\<close> and \<open>_broker_middlewares\<close> of the source.
\<close>

record ('w, 'e, 'x) LogicPublisher =
  routing_key :: string
  reply_to :: "'x pyval"
  message_kwargs :: "'x AnyDict"
  queue :: ref
  exchange :: RabbitExchange
  app_id :: "string option"
  virtual_host :: string
  producer :: "('w, 'e, 'x) AioPikaFastProducer option"
  middlewares :: "('w, 'e, 'x) PublisherMiddleware list"
  broker_middlewares :: "('w, 'e, 'x) BrokerMiddleware list"

text \<open>
  \<open>LogicPublisher.__init__\<close> (the AsyncAPI arguments are passed through to the parent and
  play no part here). \<open>reply_to\<close> is popped out of the stored message options.

  Modelled from the spec: the parent constructor is not among the sources; a publisher is
  constructed unconfigured, its producer handle absent, and keeps the two middleware lists.
\<close>

definition LogicPublisher_init ::
  "string \<Rightarrow> ref \<Rightarrow> RabbitExchange \<Rightarrow> 'x AnyDict \<Rightarrow> ('w, 'e, 'x) BrokerMiddleware list \<Rightarrow>
   ('w, 'e, 'x) PublisherMiddleware list \<Rightarrow> ('w, 'e, 'x) LogicPublisher" where
  "LogicPublisher_init routing_key' queue' exchange' message_kwargs' broker_middlewares' middlewares' =
     \<lparr> routing_key = routing_key',
       reply_to = (case message_kwargs' ''reply_to'' of None \<Rightarrow> PNone | Some v \<Rightarrow> v),
       message_kwargs = message_kwargs'(''reply_to'' := None),
       queue = queue',
       exchange = exchange',
       app_id = None,
       virtual_host = [],
       producer = None,
       middlewares = middlewares',
       broker_middlewares = broker_middlewares' \<rparr>"

text \<open>
  \<open>LogicPublisher.setup\<close>.

  Modelled from the spec: the parent's \<open>setup(producer=producer)\<close> is not among the
  sources; it is the transition to the configured state, storing the producer handle it
  is given (the source's signature allows \<open>None\<close>).
\<close>

definition LogicPublisher_setup ::
  "('w, 'e, 'x) LogicPublisher \<Rightarrow> ('w, 'e, 'x) AioPikaFastProducer option \<Rightarrow> string option \<Rightarrow> string \<Rightarrow>
   ('w, 'e, 'x) LogicPublisher" where
  "LogicPublisher_setup self producer' app_id' virtual_host' =
     self\<lparr> app_id := app_id', virtual_host := virtual_host', producer := producer' \<rparr>"

text \<open>The \<open>routing\<close> property.\<close>

definition routing :: "store \<Rightarrow> ('w, 'e, 'x) LogicPublisher \<Rightarrow> string" where
  "routing s self = or_str (routing_key self) (queue_routing (cells s (queue self)))"

text \<open>\<open>add_prefix\<close>: the copy is renamed and the publisher is pointed at it.\<close>

definition add_prefix ::
  "store \<Rightarrow> ('w, 'e, 'x) LogicPublisher \<Rightarrow> string \<Rightarrow> store \<times> ('w, 'e, 'x) LogicPublisher" where
  "add_prefix s self prefix =
     (let (new_q, s1) = deepcopy s (queue self);
          s2 = s1\<lparr> cells := (cells s1)(new_q := (cells s1 new_q)\<lparr> queue_name := prefix @ queue_name (cells s1 new_q) \<rparr>) \<rparr>
      in (s2, self\<lparr> queue := new_q \<rparr>))"

subsection \<open>Arguments of a call\<close>

text \<open>
  The parameters of \<open>request\<close>, and those of \<open>publish\<close>, which adds the deprecated RPC
  flags. \<open>a_routing_key\<close> is \<open>""\<close> and \<open>a_correlation_id\<close> is \<open>None\<close> when the caller leaves
  them out; \<open>a_extra_middlewares\<close> is \<open>_extra_middlewares\<close>, empty by default.
\<close>

record ('w, 'e, 'x) request_args =
  a_message :: "'x pyval"
  a_queue :: queue_arg
  a_exchange :: "'x pyval"
  a_routing_key :: string
  a_correlation_id :: "string option"
  a_message_id :: "string option"
  a_timestamp :: "'x pyval"
  a_extra_middlewares :: "('w, 'e, 'x) PublisherMiddleware list"
  a_publish_kwargs :: "'x AnyDict"

record ('w, 'e, 'x) publish_args = "('w, 'e, 'x) request_args" +
  a_rpc :: bool
  a_rpc_timeout :: "'x pyval"
  a_raise_timeout :: bool

text \<open>The keys of the typed dictionaries \<open>RequestPublishKwargs\<close> and \<open>PublishKwargs\<close>.\<close>

definition RequestPublishKwargs :: "string list" where
  "RequestPublishKwargs =
     [''headers'', ''mandatory'', ''immediate'', ''timeout'', ''persist'', ''priority'',
      ''message_type'', ''content_type'', ''user_id'', ''expiration'', ''content_encoding'']"

definition PublishKwargs :: "string list" where
  "PublishKwargs = RequestPublishKwargs @ [''reply_to'']"

definition typed_dict :: "string list \<Rightarrow> 'x AnyDict \<Rightarrow> bool" where
  "typed_dict keys d = (dom d \<subseteq> set keys)"

fun opt_str :: "string option \<Rightarrow> 'x pyval" where
  "opt_str None = PNone"
| "opt_str (Some s) = PStr s"

subsection \<open>The keyword dictionary\<close>

text \<open>
  \<open>correlation_id or gen_cor_id()\<close>. \<open>gen_cor_id\<close> is not among the sources: it is a
  parameter that draws an id from the world, and it is called only when the caller's id
  is falsy.
\<close>

definition correlation_id_or :: "('w \<Rightarrow> string \<times> 'w) \<Rightarrow> string option \<Rightarrow> 'w \<Rightarrow> string \<times> 'w" where
  "correlation_id_or gen_cor_id c w =
     (case c of
        None \<Rightarrow> gen_cor_id w
      | Some i \<Rightarrow> if i \<noteq> [] then (i, w) else gen_cor_id w)"

text \<open>The routing key of both dictionaries (lines 261-263 and 337-339).\<close>

definition resolve_routing_key ::
  "store \<Rightarrow> ('w, 'e, 'x) LogicPublisher \<Rightarrow> queue_arg \<Rightarrow> string \<Rightarrow> string" where
  "resolve_routing_key s self queue' routing_key' =
     or_str routing_key'
       (or_str (routing_key self)
          (queue_routing (RabbitQueue_validate s (queue_or queue' (queue self)))))"

text \<open>\<open>exchange or self.exchange.name\<close>.\<close>

definition resolve_exchange :: "('w, 'e, 'x) LogicPublisher \<Rightarrow> 'x pyval \<Rightarrow> 'x pyval" where
  "resolve_exchange self exchange' =
     (if truthy exchange' then exchange' else PStr (exchange_name (exchange self)))"

text \<open>The dictionary literal of \<open>publish\<close> (lines 260-276); later entries replace earlier ones.\<close>

definition publish_kwargs_dict ::
  "('w \<Rightarrow> string \<times> 'w) \<Rightarrow> store \<Rightarrow> ('w, 'e, 'x) LogicPublisher \<Rightarrow>
   ('w, 'e, 'x, 'z) publish_args_scheme \<Rightarrow> 'w \<Rightarrow> 'x AnyDict \<times> 'w" where
  "publish_kwargs_dict gen_cor_id s self a w =
     (let (cid, w') = correlation_id_or gen_cor_id (a_correlation_id a) w
      in ([''routing_key'' \<mapsto> PStr (resolve_routing_key s self (a_queue a) (a_routing_key a)),
           ''exchange'' \<mapsto> resolve_exchange self (a_exchange a),
           ''app_id'' \<mapsto> opt_str (app_id self),
           ''correlation_id'' \<mapsto> PStr cid,
           ''message_id'' \<mapsto> opt_str (a_message_id a),
           ''timestamp'' \<mapsto> a_timestamp a,
           ''rpc'' \<mapsto> PBool (a_rpc a),
           ''rpc_timeout'' \<mapsto> a_rpc_timeout a,
           ''raise_timeout'' \<mapsto> PBool (a_raise_timeout a),
           ''reply_to'' \<mapsto> reply_to self]
          ++ message_kwargs self ++ a_publish_kwargs a, w'))"

text \<open>The dictionary literal of \<open>request\<close> (lines 336-348).\<close>

definition request_kwargs_dict ::
  "('w \<Rightarrow> string \<times> 'w) \<Rightarrow> store \<Rightarrow> ('w, 'e, 'x) LogicPublisher \<Rightarrow>
   ('w, 'e, 'x, 'z) request_args_scheme \<Rightarrow> 'w \<Rightarrow> 'x AnyDict \<times> 'w" where
  "request_kwargs_dict gen_cor_id s self a w =
     (let (cid, w') = correlation_id_or gen_cor_id (a_correlation_id a) w
      in ([''routing_key'' \<mapsto> PStr (resolve_routing_key s self (a_queue a) (a_routing_key a)),
           ''exchange'' \<mapsto> resolve_exchange self (a_exchange a),
           ''app_id'' \<mapsto> opt_str (app_id self),
           ''correlation_id'' \<mapsto> PStr cid,
           ''message_id'' \<mapsto> opt_str (a_message_id a),
           ''timestamp'' \<mapsto> a_timestamp a]
          ++ message_kwargs self ++ a_publish_kwargs a, w'))"

text \<open>The keys that the two dictionary literals write themselves.\<close>

definition fixed_publish_keys :: "string list" where
  "fixed_publish_keys = [''routing_key'', ''exchange'', ''app_id'', ''correlation_id'', ''message_id'',
      ''timestamp'', ''rpc'', ''rpc_timeout'', ''raise_timeout'', ''reply_to'']"

definition fixed_request_keys :: "string list" where
  "fixed_request_keys = [''routing_key'', ''exchange'', ''app_id'', ''correlation_id'', ''message_id'',
      ''timestamp'']"

subsection \<open>The outbound call chain\<close>

text \<open>
  The loop of lines 280-287 and 352-359: \<open>call = partial(m, call)\<close> for every \<open>m\<close> of the
  publisher's middlewares reversed, followed by the extra middlewares when that list is
  truthy and otherwise by the \<open>publish_scope\<close> of every broker middleware reversed.
\<close>

definition build_call ::
  "('w, 'e, 'x) LogicPublisher \<Rightarrow> ('w, 'e, 'x) PublisherMiddleware list \<Rightarrow>
   ('w, 'e, 'x) AsyncFunc \<Rightarrow> ('w, 'e, 'x) AsyncFunc" where
  "build_call self extra_middlewares call =
     foldl (\<lambda>call m. m call) call
       (rev (middlewares self) @
        (if extra_middlewares \<noteq> [] then extra_middlewares
         else map (\<lambda>m. publish_scope (m PNone)) (rev (broker_middlewares self))))"

subsection \<open>publish\<close>

definition publish ::
  "('w \<Rightarrow> string \<times> 'w) \<Rightarrow> store \<Rightarrow> ('w, 'e, 'x) LogicPublisher \<Rightarrow>
   ('w, 'e, 'x, 'z) publish_args_scheme \<Rightarrow> 'w \<Rightarrow> ('e error + 'x pyval) \<times> 'w" where
  "publish gen_cor_id s self a w =
     (case producer self of
        None \<Rightarrow> (Inl NotConnected, w)
      | Some pr \<Rightarrow>
          let (kwargs, w1) = publish_kwargs_dict gen_cor_id s self a w;
              call = build_call self (a_extra_middlewares a) (producer_publish pr)
          in raised (call (a_message a) kwargs w1))"

subsection \<open>request\<close>

text \<open>
  Modelled from the spec: \<open>return_input\<close> is not among the sources; the inbound chain
  starts from the coroutine that returns the parsed message it is given.
\<close>

definition return_input :: "('w, 'e, 'x) ConsumeFunc" where
  "return_input x w = (Inr x, w)"

text \<open>
  The loop of lines 370-373 inside the exit stack. The stack holds the entered middleware
  objects, the last entered first. An \<open>__aenter__\<close> that raises ends the loop: the object
  is not pushed and the exception leaves the block.
\<close>

fun enter_middlewares ::
  "('w, 'e, 'x) BrokerMiddleware list \<Rightarrow> 'x pyval \<Rightarrow> ('w, 'e, 'x) BaseMiddleware list \<Rightarrow>
   ('w, 'e, 'x) ConsumeFunc \<Rightarrow> 'w \<Rightarrow>
   ('e option \<times> ('w, 'e, 'x) BaseMiddleware list \<times> ('w, 'e, 'x) ConsumeFunc) \<times> 'w" where
  "enter_middlewares [] published_msg stack return_msg w = ((None, stack, return_msg), w)"
| "enter_middlewares (m # ms) published_msg stack return_msg w =
     (let mid = m published_msg
      in case aenter mid w of
           (Inl e, w') \<Rightarrow> ((Some e, stack, return_msg), w')
         | (Inr u, w') \<Rightarrow>
             enter_middlewares ms published_msg (mid # stack) (consume_scope mid return_msg) w')"

text \<open>
  \<open>AsyncExitStack.__aexit__\<close>: the callbacks run last-entered first, each with the
  exception details current at that point. A truthy result clears the details and any
  pending raise; a callback that raises makes its exception the details and the pending
  raise.
\<close>

fun aexit_stack ::
  "('w, 'e, 'x) BaseMiddleware list \<Rightarrow> 'e option \<Rightarrow> bool \<Rightarrow> bool \<Rightarrow> 'w \<Rightarrow>
   ('e option \<times> bool \<times> bool) \<times> 'w" where
  "aexit_stack [] exc_details suppressed_exc pending_raise w =
     ((exc_details, suppressed_exc, pending_raise), w)"
| "aexit_stack (cb # cbs) exc_details suppressed_exc pending_raise w =
     (case aexit cb exc_details w of
        (Inr cb_suppress, w') \<Rightarrow>
          if cb_suppress then aexit_stack cbs None True False w'
          else aexit_stack cbs exc_details suppressed_exc pending_raise w'
      | (Inl new_exc, w') \<Rightarrow> aexit_stack cbs (Some new_exc) suppressed_exc True w')"

text \<open>The statements inside the \<open>async with\<close> block after the loop (lines 375-378).\<close>

definition parse_and_return ::
  "('w, 'e, 'x) AioPikaFastProducer \<Rightarrow> ('w, 'e, 'x) ConsumeFunc \<Rightarrow> 'x pyval \<Rightarrow>
   ('w, 'e, 'x StreamMessage) awaitable" where
  "parse_and_return pr return_msg published_msg w =
     (case parser pr published_msg w of
        (Inl e, w') \<Rightarrow> (Inl e, w')
      | (Inr parsed_msg, w') \<Rightarrow>
          (case decoder pr parsed_msg w' of
             (Inl e, w'') \<Rightarrow> (Inl e, w'')
           | (Inr d, w'') \<Rightarrow>
               return_msg (parsed_msg\<lparr> decoded_body := d, source_type := Response \<rparr>) w''))"

text \<open>
  Lines 366-380: the block, the exit of the stack, and what follows. When the exit
  raises, that exception leaves \<open>request\<close>. Otherwise a block that returned returns its
  value; a block that raised re-raises, unless the exit suppressed the exception: then
  control falls out of the \<open>async with\<close> statement onto \<open>raise AssertionError("unreachable")\<close>.
  (\<open>pending_raise\<close> is only ever set together with the details, see \<open>aexit_stack_pending\<close>.)
\<close>

definition scoped_response ::
  "('w, 'e, 'x) LogicPublisher \<Rightarrow> ('w, 'e, 'x) AioPikaFastProducer \<Rightarrow> 'x pyval \<Rightarrow> 'w \<Rightarrow>
   ('e error + 'x StreamMessage) \<times> 'w" where
  "scoped_response self pr published_msg w =
     (let ((entered, stack, return_msg), w1) =
            enter_middlewares (rev (broker_middlewares self)) published_msg [] return_input w;
          (block, w2) =
            (case entered of
               Some e \<Rightarrow> (Inl e, w1)
             | None \<Rightarrow> parse_and_return pr return_msg published_msg w1);
          ((exc_details, suppressed_exc, pending_raise), w3) =
            aexit_stack stack (case block of Inl e \<Rightarrow> Some e | Inr v \<Rightarrow> None) False False w2
      in case (pending_raise, exc_details) of
           (True, Some new_exc) \<Rightarrow> (Inl (Raised new_exc), w3)
         | _ \<Rightarrow>
           (case block of
              Inr v \<Rightarrow> (Inr v, w3)
            | Inl e \<Rightarrow> if suppressed_exc then (Inl Unreachable, w3) else (Inl (Raised e), w3)))"

definition request ::
  "('w \<Rightarrow> string \<times> 'w) \<Rightarrow> store \<Rightarrow> ('w, 'e, 'x) LogicPublisher \<Rightarrow>
   ('w, 'e, 'x, 'z) request_args_scheme \<Rightarrow> 'w \<Rightarrow> ('e error + 'x StreamMessage) \<times> 'w" where
  "request gen_cor_id s self a w =
     (case producer self of
        None \<Rightarrow> (Inl NotConnected, w)
      | Some pr \<Rightarrow>
          let (kwargs, w1) = request_kwargs_dict gen_cor_id s self a w;
              request' = build_call self (a_extra_middlewares a) (producer_request pr)
          in case request' (a_message a) kwargs w1 of
               (Inl e, w2) \<Rightarrow> (Inl (Raised e), w2)
             | (Inr published_msg, w2) \<Rightarrow> scoped_response self pr published_msg w2)"

section \<open>Probes: concrete collaborators that record what they see\<close>

text \<open>
  The world of the probes is the list of events so far. A probe middleware records its
  name and delegates; the probe producer records the operation. Exceptions are strings.
\<close>

definition probe :: "string \<Rightarrow> (string list, string, unit) PublisherMiddleware" where
  "probe n call_next msg kwargs w = call_next msg kwargs (w @ [n])"

definition probe_producer :: "(string list, string, unit) AioPikaFastProducer" where
  "probe_producer =
     \<lparr> producer_publish = (\<lambda>msg kwargs w. (Inr PNone, w @ [''Producer.publish''])),
       producer_request = (\<lambda>msg kwargs w. (Inr msg, w @ [''Producer.request''])),
       parser = (\<lambda>raw w. (Inr \<lparr> raw_message = raw, body = raw, decoded_body = PNone,
                                  source_type = Request \<rparr>, w @ [''parser''])),
       decoder = (\<lambda>m w. (Inr (body m), w @ [''decoder''])) \<rparr>"

text \<open>A producer whose \<open>publish\<close> and \<open>request\<close> hand back the value they received under one key.\<close>

definition echo_producer :: "string \<Rightarrow> (string list, string, unit) AioPikaFastProducer" where
  "echo_producer k =
     probe_producer\<lparr>
       producer_publish :=
         (\<lambda>msg kwargs w. (Inr (case kwargs k of None \<Rightarrow> PNone | Some v \<Rightarrow> v), w @ [''Producer.publish''])),
       producer_request :=
         (\<lambda>msg kwargs w. (Inr (case kwargs k of None \<Rightarrow> PNone | Some v \<Rightarrow> v), w @ [''Producer.request''])) \<rparr>"

text \<open>A producer whose parser raises.\<close>

definition failing_parser_producer :: "(string list, string, unit) AioPikaFastProducer" where
  "failing_parser_producer =
     probe_producer\<lparr> parser := (\<lambda>raw w. (Inl ''ParserError'', w @ [''parser''])) \<rparr>"

text \<open>
  A broker middleware that records entering, leaving and both scopes; \<open>suppress\<close> is what
  its \<open>__aexit__\<close> returns when it is given an exception.
\<close>

definition broker_probe :: "string \<Rightarrow> bool \<Rightarrow> (string list, string, unit) BrokerMiddleware" where
  "broker_probe n suppress msg =
     \<lparr> aenter = (\<lambda>w. (Inr (), w @ [n @ ''.enter''])),
       aexit = (\<lambda>exc w. (Inr (exc \<noteq> None \<and> suppress), w @ [n @ ''.exit''])),
       publish_scope = probe (n @ ''.publish_scope''),
       consume_scope = (\<lambda>call_next msg w. call_next msg (w @ [n @ ''.consume_scope''])) \<rparr>"

definition gen_probe :: "string list \<Rightarrow> string \<times> string list" where
  "gen_probe w = (''generated-id'', w @ [''gen_cor_id''])"

text \<open>One descriptor, named \<open>orders\<close>, at reference 0.\<close>

definition store0 :: store where
  "store0 = \<lparr> cells = (\<lambda>r. \<lparr> queue_name = ''orders'', queue_routing_key = [] \<rparr>), next_ref = 1 \<rparr>"

definition args0 :: "(string list, string, unit) publish_args" where
  "args0 = \<lparr> a_message = PStr ''hi'', a_queue = QNone, a_exchange = PNone, a_routing_key = [],
             a_correlation_id = None, a_message_id = None, a_timestamp = PNone,
             a_extra_middlewares = [], a_publish_kwargs = Map.empty,
             a_rpc = False, a_rpc_timeout = PNone, a_raise_timeout = False \<rparr>"

text \<open>
  A publisher bound to the descriptor at reference 0 and the exchange \<open>events\<close>, with the
  given stored options and middlewares, before \<open>setup\<close> and after it.
\<close>

definition new_publisher ::
  "(string list, string, unit) BrokerMiddleware list \<Rightarrow>
   (string list, string, unit) PublisherMiddleware list \<Rightarrow> (string list, string, unit) LogicPublisher" where
  "new_publisher bms ms =
     LogicPublisher_init [] 0 \<lparr> exchange_name = ''events'' \<rparr> [''priority'' \<mapsto> PInt 5] bms ms"

definition connected_publisher ::
  "(string list, string, unit) AioPikaFastProducer \<Rightarrow>
   (string list, string, unit) BrokerMiddleware list \<Rightarrow>
   (string list, string, unit) PublisherMiddleware list \<Rightarrow> (string list, string, unit) LogicPublisher" where
  "connected_publisher pr bms ms = LogicPublisher_setup (new_publisher bms ms) (Some pr) None ''/''"

section \<open>Properties of the stream subscription descriptor\<close>

text \<open>
  C9 as stated fails on the default of the last-seen id: with group and consumer both
  unset the constructor succeeds, but the id it stores is the Redis marker \<open>$\<close>, not the
  string \<open>latest\<close>. The last conjunct shows that "set" is decided by truthiness: an
  empty group with no consumer is accepted.
\<close>

theorem StreamSub_init_default_counterexample:
  "StreamSub_init ''orders'' (Some 100) None None False False None None None None
     = Inr (\<lparr> name = ''orders'', group = None, consumer = None, polling_interval = Some 100,
              batch = False, no_ack = False, last_id = ''$'', maxlen = None,
              max_records = None, max_concurrent = None \<rparr>, [])
   \<and> StreamSub_init ''orders'' (Some 100) None None False False None None None None
     \<noteq> Inr (\<lparr> name = ''orders'', group = None, consumer = None, polling_interval = Some 100,
              batch = False, no_ack = False, last_id = ''latest'', maxlen = None,
              max_records = None, max_concurrent = None \<rparr>, [])
   \<and> \<not> isl (StreamSub_init ''orders'' (Some 100) (Some []) None False False None None None None)"
  by (simp add: StreamSub_init_def)

text \<open>
  C9, amended: the constructor raises \<open>SetupError\<close> exactly when one of group and consumer
  is a non-empty string and the other is not; with both unset it succeeds without a
  warning and the last-seen id is the given one, or \<open>$\<close> when none is given; with both
  set and \<open>no_ack\<close> it succeeds and issues one \<open>RuntimeWarning\<close>.
\<close>

theorem StreamSub_init_validation:
  "(isl (StreamSub_init stream pi g c b na li ml mr mc) \<longleftrightarrow> (truthy_opt g \<noteq> truthy_opt c))
   \<and> (truthy_opt g \<noteq> truthy_opt c \<longrightarrow>
        StreamSub_init stream pi g c b na li ml mr mc
          = Inl (SetupError ''You should specify `group` and `consumer` both''))
   \<and> (\<not> truthy_opt g \<and> \<not> truthy_opt c \<longrightarrow>
        (\<exists>sub. StreamSub_init stream pi g c b na li ml mr mc = Inr (sub, [])
           \<and> name sub = stream
           \<and> last_id sub = (case li of None \<Rightarrow> ''$'' | Some l \<Rightarrow> l)))
   \<and> (truthy_opt g \<and> truthy_opt c \<and> na \<longrightarrow>
        (\<exists>sub. StreamSub_init stream pi g c b na li ml mr mc
             = Inr (sub, [(''`no_ack` has no effect with consumer group'', RuntimeWarning)])
           \<and> group sub = g \<and> consumer sub = c \<and> no_ack sub))"
  by (auto simp: StreamSub_init_def Let_def)

theorem StreamSub_init_validation_witness:
  "isl (StreamSub_init ''s'' (Some 100) (Some ''g'') None False False None None None None)
   \<and> \<not> isl (StreamSub_init ''s'' (Some 100) None None False False None None None None)
   \<and> (\<exists>sub. StreamSub_init ''s'' (Some 100) None None False False None None None None = Inr (sub, [])
         \<and> last_id sub = ''$'')
   \<and> (\<exists>sub. StreamSub_init ''s'' (Some 100) (Some ''g'') (Some ''c'') False True None None None None
             = Inr (sub, [(''`no_ack` has no effect with consumer group'', RuntimeWarning)]))"
  using StreamSub_init_validation [of "''s''" "Some 100" "Some ''g''" None False False None None None None]
        StreamSub_init_validation [of "''s''" "Some 100" None None False False None None None None]
        StreamSub_init_validation [of "''s''" "Some 100" "Some ''g''" "Some ''c''" False True None None None None]
  by auto

section \<open>Properties of the publisher\<close>

lemmas probe_defs =
  probe_def probe_producer_def echo_producer_def failing_parser_producer_def broker_probe_def
  gen_probe_def store0_def args0_def new_publisher_def connected_publisher_def
  LogicPublisher_init_def LogicPublisher_setup_def

lemmas call_defs =
  publish_def request_def publish_kwargs_dict_def request_kwargs_dict_def build_call_def
  correlation_id_or_def resolve_routing_key_def resolve_exchange_def raised_def
  scoped_response_def parse_and_return_def return_input_def or_str_def queue_routing_def

subsection \<open>Lookups in the keyword dictionaries\<close>

lemma typed_dict_absent:
  "typed_dict keys d \<Longrightarrow> k \<notin> set keys \<Longrightarrow> d k = None"
  by (auto simp: typed_dict_def)

lemma typed_dict_request_publish:
  "typed_dict RequestPublishKwargs d \<Longrightarrow> typed_dict PublishKwargs d"
  by (auto simp: typed_dict_def PublishKwargs_def)

lemma fst_correlation_id_or:
  "fst (correlation_id_or gen c w) =
     (case c of None \<Rightarrow> fst (gen w) | Some i \<Rightarrow> if i \<noteq> [] then i else fst (gen w))"
  by (simp add: correlation_id_or_def split: option.splits)

lemma publish_kwargs_routing_key:
  assumes "typed_dict PublishKwargs (message_kwargs self)"
      and "typed_dict PublishKwargs (a_publish_kwargs a)"
  shows "fst (publish_kwargs_dict gen s self a w) ''routing_key''
           = Some (PStr (resolve_routing_key s self (a_queue a) (a_routing_key a)))"
proof -
  have k: "''routing_key'' \<notin> set PublishKwargs"
    by (simp add: PublishKwargs_def RequestPublishKwargs_def)
  have "message_kwargs self ''routing_key'' = None" "a_publish_kwargs a ''routing_key'' = None"
    using assms k by (auto dest: typed_dict_absent)
  then show ?thesis
    by (simp add: publish_kwargs_dict_def map_add_def split: prod.splits)
qed

lemma request_kwargs_routing_key:
  assumes "typed_dict PublishKwargs (message_kwargs self)"
      and "typed_dict PublishKwargs (a_publish_kwargs a)"
  shows "fst (request_kwargs_dict gen s self a w) ''routing_key''
           = Some (PStr (resolve_routing_key s self (a_queue a) (a_routing_key a)))"
proof -
  have k: "''routing_key'' \<notin> set PublishKwargs"
    by (simp add: PublishKwargs_def RequestPublishKwargs_def)
  have "message_kwargs self ''routing_key'' = None" "a_publish_kwargs a ''routing_key'' = None"
    using assms k by (auto dest: typed_dict_absent)
  then show ?thesis
    by (simp add: request_kwargs_dict_def map_add_def split: prod.splits)
qed

lemma publish_kwargs_correlation_id:
  assumes "typed_dict PublishKwargs (message_kwargs self)"
      and "typed_dict PublishKwargs (a_publish_kwargs a)"
  shows "fst (publish_kwargs_dict gen s self a w) ''correlation_id''
           = Some (PStr (fst (correlation_id_or gen (a_correlation_id a) w)))"
proof -
  have k: "''correlation_id'' \<notin> set PublishKwargs"
    by (simp add: PublishKwargs_def RequestPublishKwargs_def)
  have "message_kwargs self ''correlation_id'' = None" "a_publish_kwargs a ''correlation_id'' = None"
    using assms k by (auto dest: typed_dict_absent)
  then show ?thesis
    by (simp add: publish_kwargs_dict_def map_add_def split: prod.splits)
qed

lemma request_kwargs_correlation_id:
  assumes "typed_dict PublishKwargs (message_kwargs self)"
      and "typed_dict PublishKwargs (a_publish_kwargs a)"
  shows "fst (request_kwargs_dict gen s self a w) ''correlation_id''
           = Some (PStr (fst (correlation_id_or gen (a_correlation_id a) w)))"
proof -
  have k: "''correlation_id'' \<notin> set PublishKwargs"
    by (simp add: PublishKwargs_def RequestPublishKwargs_def)
  have "message_kwargs self ''correlation_id'' = None" "a_publish_kwargs a ''correlation_id'' = None"
    using assms k by (auto dest: typed_dict_absent)
  then show ?thesis
    by (simp add: request_kwargs_dict_def map_add_def split: prod.splits)
qed

lemma resolve_routing_key_cases:
  "rk \<noteq> [] \<Longrightarrow> resolve_routing_key s self q rk = rk"
  "routing_key self \<noteq> [] \<Longrightarrow> resolve_routing_key s self q [] = routing_key self"
  "routing_key self = [] \<Longrightarrow> resolve_routing_key s self (QObj r) [] = queue_routing (cells s r)"
  "routing_key self = [] \<Longrightarrow> n \<noteq> [] \<Longrightarrow>
     resolve_routing_key s self (QStr n) [] = queue_routing (RabbitQueue_validate s (Inl n))"
  "routing_key self = [] \<Longrightarrow> resolve_routing_key s self QNone [] = queue_routing (cells s (queue self))"
  "routing_key self = [] \<Longrightarrow> resolve_routing_key s self (QStr []) [] = queue_routing (cells s (queue self))"
  by (simp_all add: resolve_routing_key_def or_str_def)

subsection \<open>What a call sends\<close>

text \<open>
  A call on a configured publisher invokes the composed chain with the keyword dictionary
  built at lines 260-276 and 336-348, in the world left by the id generator.
\<close>

lemma publish_passes_dict:
  "producer self = Some pr \<Longrightarrow>
   publish gen s self a w
     = raised (build_call self (a_extra_middlewares a) (producer_publish pr) (a_message a)
                 (fst (publish_kwargs_dict gen s self a w)) (snd (publish_kwargs_dict gen s self a w)))"
  by (simp add: publish_def split: prod.splits)

lemma request_passes_dict:
  "producer self = Some pr \<Longrightarrow>
   request gen s self b w
     = (case build_call self (a_extra_middlewares b) (producer_request pr) (a_message b)
               (fst (request_kwargs_dict gen s self b w)) (snd (request_kwargs_dict gen s self b w)) of
          (Inl e, w2) \<Rightarrow> (Inl (Raised e), w2)
        | (Inr published_msg, w2) \<Rightarrow> scoped_response self pr published_msg w2)"
  by (simp add: request_def split: prod.splits)

lemma build_call_bare:
  "middlewares self = [] \<Longrightarrow> broker_middlewares self = [] \<Longrightarrow> build_call self [] call = call"
  by (simp add: build_call_def)

lemma snd_publish_kwargs_dict:
  "snd (publish_kwargs_dict gen s self a w) = snd (correlation_id_or gen (a_correlation_id a) w)"
  by (simp add: publish_kwargs_dict_def split: prod.splits)

lemma snd_request_kwargs_dict:
  "snd (request_kwargs_dict gen s self a w) = snd (correlation_id_or gen (a_correlation_id a) w)"
  by (simp add: request_kwargs_dict_def split: prod.splits)

lemma correlation_id_or_cases:
  "c \<noteq> [] \<Longrightarrow> correlation_id_or gen (Some c) w = (c, w)"
  "correlation_id_or gen None w = gen w"
  "correlation_id_or gen (Some []) w = gen w"
  by (simp_all add: correlation_id_or_def)


lemma echo_publish:
  "raised (producer_publish (echo_producer k) msg kwargs w)
     = (Inr (case kwargs k of None \<Rightarrow> PNone | Some v \<Rightarrow> v), w @ [''Producer.publish''])"
  by (simp add: echo_producer_def raised_def)

lemma echo_request:
  "broker_middlewares self = [] \<Longrightarrow>
   fst (case producer_request (echo_producer k) msg kwargs w of
          (Inl e, w2) \<Rightarrow> (Inl (Raised e), w2)
        | (Inr published_msg, w2) \<Rightarrow> scoped_response self (echo_producer k) published_msg w2)
     = Inr \<lparr> raw_message = (case kwargs k of None \<Rightarrow> PNone | Some v \<Rightarrow> v),
             body = (case kwargs k of None \<Rightarrow> PNone | Some v \<Rightarrow> v),
             decoded_body = (case kwargs k of None \<Rightarrow> PNone | Some v \<Rightarrow> v),
             source_type = Response \<rparr>"
  by (simp add: echo_producer_def probe_producer_def scoped_response_def parse_and_return_def
        return_input_def)

lemma connected_publisher_fields:
  "producer (connected_publisher pr bms ms) = Some pr"
  "middlewares (connected_publisher pr bms ms) = ms"
  "broker_middlewares (connected_publisher pr bms ms) = bms"
  "routing_key (connected_publisher pr bms ms) = []"
  "queue (connected_publisher pr bms ms) = 0"
  "message_kwargs (connected_publisher pr bms ms) = [''priority'' \<mapsto> PInt 5]"
  by (auto simp: connected_publisher_def new_publisher_def LogicPublisher_setup_def
        LogicPublisher_init_def)

lemma connected_publisher_typed:
  "typed_dict PublishKwargs (message_kwargs (connected_publisher pr bms ms))"
  by (simp add: connected_publisher_fields typed_dict_def PublishKwargs_def RequestPublishKwargs_def)


subsection \<open>Routing key and correlation id\<close>

text \<open>
  C2: every call of \<open>publish\<close> or \<open>request\<close> on a configured publisher invokes the
  composed chain around the producer's operation with a keyword dictionary whose
  \<open>routing_key\<close> follows the precedence: a non-empty per-call \<open>routing_key\<close> wins;
  otherwise a non-empty routing key bound to the publisher wins; otherwise the routing
  derived from the per-call \<open>queue\<close> override (a descriptor object, or a non-empty name
  normalised by \<open>validate\<close>) wins; otherwise it is the routing derived from the
  publisher's bound destination. The stored and per-call options are typed dictionaries,
  which hold no \<open>routing_key\<close> entry.
\<close>

theorem routing_key_precedence:
  assumes "producer self = Some pr"
      and "typed_dict PublishKwargs (message_kwargs self)"
      and "typed_dict PublishKwargs (a_publish_kwargs a)"
      and "typed_dict RequestPublishKwargs (a_publish_kwargs b)"
  shows "(\<exists>kwargs w1.
            publish gen s self a w
              = raised (build_call self (a_extra_middlewares a) (producer_publish pr)
                          (a_message a) kwargs w1)
          \<and> (a_routing_key a \<noteq> [] \<longrightarrow> kwargs ''routing_key'' = Some (PStr (a_routing_key a)))
          \<and> (a_routing_key a = [] \<and> routing_key self \<noteq> [] \<longrightarrow>
                kwargs ''routing_key'' = Some (PStr (routing_key self)))
          \<and> (\<forall>r. a_routing_key a = [] \<and> routing_key self = [] \<and> a_queue a = QObj r \<longrightarrow>
                kwargs ''routing_key'' = Some (PStr (queue_routing (cells s r))))
          \<and> (\<forall>n. a_routing_key a = [] \<and> routing_key self = [] \<and> a_queue a = QStr n \<and> n \<noteq> [] \<longrightarrow>
                kwargs ''routing_key'' = Some (PStr (queue_routing (RabbitQueue_validate s (Inl n)))))
          \<and> (a_routing_key a = [] \<and> routing_key self = [] \<and> (a_queue a = QNone \<or> a_queue a = QStr []) \<longrightarrow>
                kwargs ''routing_key'' = Some (PStr (queue_routing (cells s (queue self))))))
       \<and> (\<exists>kwargs w1.
            request gen s self b w
              = (case build_call self (a_extra_middlewares b) (producer_request pr)
                        (a_message b) kwargs w1 of
                   (Inl e, w2) \<Rightarrow> (Inl (Raised e), w2)
                 | (Inr published_msg, w2) \<Rightarrow> scoped_response self pr published_msg w2)
          \<and> (a_routing_key b \<noteq> [] \<longrightarrow> kwargs ''routing_key'' = Some (PStr (a_routing_key b)))
          \<and> (a_routing_key b = [] \<and> routing_key self \<noteq> [] \<longrightarrow>
                kwargs ''routing_key'' = Some (PStr (routing_key self)))
          \<and> (\<forall>r. a_routing_key b = [] \<and> routing_key self = [] \<and> a_queue b = QObj r \<longrightarrow>
                kwargs ''routing_key'' = Some (PStr (queue_routing (cells s r))))
          \<and> (\<forall>n. a_routing_key b = [] \<and> routing_key self = [] \<and> a_queue b = QStr n \<and> n \<noteq> [] \<longrightarrow>
                kwargs ''routing_key'' = Some (PStr (queue_routing (RabbitQueue_validate s (Inl n)))))
          \<and> (a_routing_key b = [] \<and> routing_key self = [] \<and> (a_queue b = QNone \<or> a_queue b = QStr []) \<longrightarrow>
                kwargs ''routing_key'' = Some (PStr (queue_routing (cells s (queue self))))))"
proof (rule conjI)
  let ?K = "publish_kwargs_dict gen s self a w"
  have k: "fst ?K ''routing_key'' = Some (PStr (resolve_routing_key s self (a_queue a) (a_routing_key a)))"
    by (rule publish_kwargs_routing_key [OF assms(2,3)])
  show "\<exists>kwargs w1.
            publish gen s self a w
              = raised (build_call self (a_extra_middlewares a) (producer_publish pr)
                          (a_message a) kwargs w1)
          \<and> (a_routing_key a \<noteq> [] \<longrightarrow> kwargs ''routing_key'' = Some (PStr (a_routing_key a)))
          \<and> (a_routing_key a = [] \<and> routing_key self \<noteq> [] \<longrightarrow>
                kwargs ''routing_key'' = Some (PStr (routing_key self)))
          \<and> (\<forall>r. a_routing_key a = [] \<and> routing_key self = [] \<and> a_queue a = QObj r \<longrightarrow>
                kwargs ''routing_key'' = Some (PStr (queue_routing (cells s r))))
          \<and> (\<forall>n. a_routing_key a = [] \<and> routing_key self = [] \<and> a_queue a = QStr n \<and> n \<noteq> [] \<longrightarrow>
                kwargs ''routing_key'' = Some (PStr (queue_routing (RabbitQueue_validate s (Inl n)))))
          \<and> (a_routing_key a = [] \<and> routing_key self = [] \<and> (a_queue a = QNone \<or> a_queue a = QStr []) \<longrightarrow>
                kwargs ''routing_key'' = Some (PStr (queue_routing (cells s (queue self)))))"
    apply (rule exI [of _ "fst ?K"])
    apply (rule exI [of _ "snd ?K"])
    using publish_passes_dict [OF assms(1), of gen s a w] k
    by (auto simp: resolve_routing_key_cases)
next
  let ?K = "request_kwargs_dict gen s self b w"
  have k: "fst ?K ''routing_key'' = Some (PStr (resolve_routing_key s self (a_queue b) (a_routing_key b)))"
    by (rule request_kwargs_routing_key [OF assms(2) typed_dict_request_publish [OF assms(4)]])
  show "\<exists>kwargs w1.
            request gen s self b w
              = (case build_call self (a_extra_middlewares b) (producer_request pr)
                        (a_message b) kwargs w1 of
                   (Inl e, w2) \<Rightarrow> (Inl (Raised e), w2)
                 | (Inr published_msg, w2) \<Rightarrow> scoped_response self pr published_msg w2)
          \<and> (a_routing_key b \<noteq> [] \<longrightarrow> kwargs ''routing_key'' = Some (PStr (a_routing_key b)))
          \<and> (a_routing_key b = [] \<and> routing_key self \<noteq> [] \<longrightarrow>
                kwargs ''routing_key'' = Some (PStr (routing_key self)))
          \<and> (\<forall>r. a_routing_key b = [] \<and> routing_key self = [] \<and> a_queue b = QObj r \<longrightarrow>
                kwargs ''routing_key'' = Some (PStr (queue_routing (cells s r))))
          \<and> (\<forall>n. a_routing_key b = [] \<and> routing_key self = [] \<and> a_queue b = QStr n \<and> n \<noteq> [] \<longrightarrow>
                kwargs ''routing_key'' = Some (PStr (queue_routing (RabbitQueue_validate s (Inl n)))))
          \<and> (a_routing_key b = [] \<and> routing_key self = [] \<and> (a_queue b = QNone \<or> a_queue b = QStr []) \<longrightarrow>
                kwargs ''routing_key'' = Some (PStr (queue_routing (cells s (queue self)))))"
    apply (rule exI [of _ "fst ?K"])
    apply (rule exI [of _ "snd ?K"])
    using request_passes_dict [OF assms(1), of gen s b w] k
    by (auto simp: resolve_routing_key_cases)
qed

theorem routing_key_precedence_witness:
  "producer (connected_publisher (echo_producer ''routing_key'') [] [])
     = Some (echo_producer ''routing_key'')
   \<and> typed_dict PublishKwargs (message_kwargs (connected_publisher (echo_producer ''routing_key'') [] []))
   \<and> typed_dict PublishKwargs (a_publish_kwargs (args0\<lparr> a_routing_key := ''orders.created'' \<rparr>))
   \<and> typed_dict RequestPublishKwargs (a_publish_kwargs (args0\<lparr> a_queue := QStr ''replies'' \<rparr>))
   \<and> fst (publish gen_probe store0 (connected_publisher (echo_producer ''routing_key'') [] [])
            (args0\<lparr> a_routing_key := ''orders.created'' \<rparr>) [])
       = Inr (PStr ''orders.created'')
   \<and> fst (request gen_probe store0 (connected_publisher (echo_producer ''routing_key'') [] [])
            (args0\<lparr> a_queue := QStr ''replies'' \<rparr>) [])
       = Inr \<lparr> raw_message = PStr ''replies'', body = PStr ''replies'',
               decoded_body = PStr ''replies'', source_type = Response \<rparr>"
proof -
  let ?pr = "echo_producer ''routing_key''"
  let ?p = "connected_publisher ?pr [] []"
  let ?a = "args0\<lparr> a_routing_key := ''orders.created'' \<rparr>"
  let ?b = "args0\<lparr> a_queue := QStr ''replies'' \<rparr>"
  have h1: "producer ?p = Some ?pr"
    by (simp add: connected_publisher_fields)
  have h2: "typed_dict PublishKwargs (message_kwargs ?p)"
    by (rule connected_publisher_typed)
  have h3: "typed_dict PublishKwargs (a_publish_kwargs ?a)"
    by (simp add: typed_dict_def args0_def)
  have h4: "typed_dict RequestPublishKwargs (a_publish_kwargs ?b)"
    by (simp add: typed_dict_def args0_def)
  have f: "a_routing_key ?a = ''orders.created''" "a_extra_middlewares ?a = []"
          "a_routing_key ?b = []" "a_queue ?b = QStr ''replies''" "a_extra_middlewares ?b = []"
    by (simp_all add: args0_def)
  have bc: "\<And>call. build_call ?p [] call = call"
    by (simp add: build_call_bare connected_publisher_fields)
  note t = routing_key_precedence [OF h1 h2 h3 h4, where gen = gen_probe and s = store0 and w = "[]"]
  have rq: "queue_routing (RabbitQueue_validate store0 (Inl ''replies'')) = ''replies''"
    by (simp add: queue_routing_def or_str_def)
  from t f(1) obtain kwargs w1 where
    p: "publish gen_probe store0 ?p ?a []
          = raised (build_call ?p (a_extra_middlewares ?a) (producer_publish ?pr) (a_message ?a) kwargs w1)"
    and k: "kwargs ''routing_key'' = Some (PStr ''orders.created'')"
    by auto
  from p k have e1: "fst (publish gen_probe store0 ?p ?a []) = Inr (PStr ''orders.created'')"
    by (simp add: f(2) bc echo_publish)
  from t f(3,4) rq obtain kwargs' w1' where
    r: "request gen_probe store0 ?p ?b []
          = (case build_call ?p (a_extra_middlewares ?b) (producer_request ?pr) (a_message ?b) kwargs' w1' of
               (Inl e, w2) \<Rightarrow> (Inl (Raised e), w2)
             | (Inr published_msg, w2) \<Rightarrow> scoped_response ?p ?pr published_msg w2)"
    and k': "kwargs' ''routing_key'' = Some (PStr ''replies'')"
    by (auto simp: connected_publisher_fields)
  from r k' have e2: "fst (request gen_probe store0 ?p ?b [])
       = Inr \<lparr> raw_message = PStr ''replies'', body = PStr ''replies'',
               decoded_body = PStr ''replies'', source_type = Response \<rparr>"
    by (simp add: f(5) bc echo_request connected_publisher_fields)
  from h1 h2 h3 h4 e1 e2 show ?thesis by simp
qed

lemma correlation_id_or_nonempty:
  "fst (gen w) \<noteq> [] \<Longrightarrow> fst (correlation_id_or gen c w) \<noteq> []"
  by (simp add: correlation_id_or_def split: option.splits)

lemma correlation_id_or_falsy:
  "\<not> truthy_opt c \<Longrightarrow> correlation_id_or gen c w = gen w"
  by (cases c) (simp_all add: correlation_id_or_def)

text \<open>
  C3: every call of \<open>publish\<close> or \<open>request\<close> on a configured publisher invokes the
  composed chain around the producer's operation (the producer's operation itself when
  there is no middleware) with a keyword dictionary that holds a correlation id, and that
  id is not empty. It is the caller's id when the caller supplies one, that is a non-empty
  string, and then the generator is not called; otherwise it is the id drawn from
  \<open>gen_cor_id\<close>, whose ids are not empty. The stored and per-call options are typed
  dictionaries, which hold no \<open>correlation_id\<close> entry.
\<close>

theorem correlation_id_set:
  assumes "producer self = Some pr"
      and "typed_dict PublishKwargs (message_kwargs self)"
      and "typed_dict PublishKwargs (a_publish_kwargs a)"
      and "typed_dict RequestPublishKwargs (a_publish_kwargs b)"
      and "fst (gen w) \<noteq> []"
  shows "(\<exists>kwargs w1 cid.
            publish gen s self a w
              = raised (build_call self (a_extra_middlewares a) (producer_publish pr)
                          (a_message a) kwargs w1)
          \<and> (middlewares self = [] \<and> broker_middlewares self = [] \<and> a_extra_middlewares a = [] \<longrightarrow>
                publish gen s self a w = raised (producer_publish pr (a_message a) kwargs w1))
          \<and> kwargs ''correlation_id'' = Some (PStr cid)
          \<and> cid \<noteq> []
          \<and> (\<forall>c. a_correlation_id a = Some c \<and> c \<noteq> [] \<longrightarrow> cid = c \<and> w1 = w)
          \<and> (\<not> truthy_opt (a_correlation_id a) \<longrightarrow> (cid, w1) = gen w))
       \<and> (\<exists>kwargs w1 cid.
            request gen s self b w
              = (case build_call self (a_extra_middlewares b) (producer_request pr)
                        (a_message b) kwargs w1 of
                   (Inl e, w2) \<Rightarrow> (Inl (Raised e), w2)
                 | (Inr published_msg, w2) \<Rightarrow> scoped_response self pr published_msg w2)
          \<and> (middlewares self = [] \<and> broker_middlewares self = [] \<and> a_extra_middlewares b = [] \<longrightarrow>
                request gen s self b w
                  = (case producer_request pr (a_message b) kwargs w1 of
                       (Inl e, w2) \<Rightarrow> (Inl (Raised e), w2)
                     | (Inr published_msg, w2) \<Rightarrow> scoped_response self pr published_msg w2))
          \<and> kwargs ''correlation_id'' = Some (PStr cid)
          \<and> cid \<noteq> []
          \<and> (\<forall>c. a_correlation_id b = Some c \<and> c \<noteq> [] \<longrightarrow> cid = c \<and> w1 = w)
          \<and> (\<not> truthy_opt (a_correlation_id b) \<longrightarrow> (cid, w1) = gen w))"
proof (rule conjI)
  let ?K = "publish_kwargs_dict gen s self a w"
  let ?C = "correlation_id_or gen (a_correlation_id a) w"
  have k: "fst ?K ''correlation_id'' = Some (PStr (fst ?C))"
    by (rule publish_kwargs_correlation_id [OF assms(2,3)])
  have w: "snd ?K = snd ?C"
    by (rule snd_publish_kwargs_dict)
  have n: "fst ?C \<noteq> []"
    using assms(5) by (simp add: correlation_id_or_nonempty)
  have c: "\<forall>c. a_correlation_id a = Some c \<and> c \<noteq> [] \<longrightarrow> fst ?C = c \<and> snd ?K = w"
    by (simp add: w correlation_id_or_cases)
  have g: "\<not> truthy_opt (a_correlation_id a) \<longrightarrow> (fst ?C, snd ?K) = gen w"
    by (simp add: w correlation_id_or_falsy)
  have p: "publish gen s self a w
             = raised (build_call self (a_extra_middlewares a) (producer_publish pr)
                         (a_message a) (fst ?K) (snd ?K))"
    by (rule publish_passes_dict [OF assms(1)])
  have d: "middlewares self = [] \<and> broker_middlewares self = [] \<and> a_extra_middlewares a = [] \<longrightarrow>
             publish gen s self a w = raised (producer_publish pr (a_message a) (fst ?K) (snd ?K))"
    using p by (auto simp: build_call_bare)
  show "\<exists>kwargs w1 cid.
            publish gen s self a w
              = raised (build_call self (a_extra_middlewares a) (producer_publish pr)
                          (a_message a) kwargs w1)
          \<and> (middlewares self = [] \<and> broker_middlewares self = [] \<and> a_extra_middlewares a = [] \<longrightarrow>
                publish gen s self a w = raised (producer_publish pr (a_message a) kwargs w1))
          \<and> kwargs ''correlation_id'' = Some (PStr cid)
          \<and> cid \<noteq> []
          \<and> (\<forall>c. a_correlation_id a = Some c \<and> c \<noteq> [] \<longrightarrow> cid = c \<and> w1 = w)
          \<and> (\<not> truthy_opt (a_correlation_id a) \<longrightarrow> (cid, w1) = gen w)"
    using p d k n c g by blast
next
  let ?K = "request_kwargs_dict gen s self b w"
  let ?C = "correlation_id_or gen (a_correlation_id b) w"
  have k: "fst ?K ''correlation_id'' = Some (PStr (fst ?C))"
    by (rule request_kwargs_correlation_id [OF assms(2) typed_dict_request_publish [OF assms(4)]])
  have w: "snd ?K = snd ?C"
    by (rule snd_request_kwargs_dict)
  have n: "fst ?C \<noteq> []"
    using assms(5) by (simp add: correlation_id_or_nonempty)
  have c: "\<forall>c. a_correlation_id b = Some c \<and> c \<noteq> [] \<longrightarrow> fst ?C = c \<and> snd ?K = w"
    by (simp add: w correlation_id_or_cases)
  have g: "\<not> truthy_opt (a_correlation_id b) \<longrightarrow> (fst ?C, snd ?K) = gen w"
    by (simp add: w correlation_id_or_falsy)
  have p: "request gen s self b w
             = (case build_call self (a_extra_middlewares b) (producer_request pr)
                       (a_message b) (fst ?K) (snd ?K) of
                  (Inl e, w2) \<Rightarrow> (Inl (Raised e), w2)
                | (Inr published_msg, w2) \<Rightarrow> scoped_response self pr published_msg w2)"
    by (rule request_passes_dict [OF assms(1)])
  have d: "middlewares self = [] \<and> broker_middlewares self = [] \<and> a_extra_middlewares b = [] \<longrightarrow>
             request gen s self b w
               = (case producer_request pr (a_message b) (fst ?K) (snd ?K) of
                    (Inl e, w2) \<Rightarrow> (Inl (Raised e), w2)
                  | (Inr published_msg, w2) \<Rightarrow> scoped_response self pr published_msg w2)"
    using p by (auto simp: build_call_bare)
  show "\<exists>kwargs w1 cid.
            request gen s self b w
              = (case build_call self (a_extra_middlewares b) (producer_request pr)
                        (a_message b) kwargs w1 of
                   (Inl e, w2) \<Rightarrow> (Inl (Raised e), w2)
                 | (Inr published_msg, w2) \<Rightarrow> scoped_response self pr published_msg w2)
          \<and> (middlewares self = [] \<and> broker_middlewares self = [] \<and> a_extra_middlewares b = [] \<longrightarrow>
                request gen s self b w
                  = (case producer_request pr (a_message b) kwargs w1 of
                       (Inl e, w2) \<Rightarrow> (Inl (Raised e), w2)
                     | (Inr published_msg, w2) \<Rightarrow> scoped_response self pr published_msg w2))
          \<and> kwargs ''correlation_id'' = Some (PStr cid)
          \<and> cid \<noteq> []
          \<and> (\<forall>c. a_correlation_id b = Some c \<and> c \<noteq> [] \<longrightarrow> cid = c \<and> w1 = w)
          \<and> (\<not> truthy_opt (a_correlation_id b) \<longrightarrow> (cid, w1) = gen w)"
    using p d k n c g by blast
qed

theorem correlation_id_set_witness:
  "producer (connected_publisher (echo_producer ''correlation_id'') [] [])
     = Some (echo_producer ''correlation_id'')
   \<and> typed_dict PublishKwargs (message_kwargs (connected_publisher (echo_producer ''correlation_id'') [] []))
   \<and> typed_dict PublishKwargs (a_publish_kwargs (args0\<lparr> a_correlation_id := Some ''abc'' \<rparr>))
   \<and> typed_dict RequestPublishKwargs (a_publish_kwargs args0)
   \<and> fst (gen_probe []) \<noteq> []
   \<and> publish gen_probe store0 (connected_publisher (echo_producer ''correlation_id'') [] [])
        (args0\<lparr> a_correlation_id := Some ''abc'' \<rparr>) []
       = (Inr (PStr ''abc''), [''Producer.publish''])
   \<and> fst (request gen_probe store0 (connected_publisher (echo_producer ''correlation_id'') [] []) args0 [])
       = Inr \<lparr> raw_message = PStr ''generated-id'', body = PStr ''generated-id'',
               decoded_body = PStr ''generated-id'', source_type = Response \<rparr>"
proof -
  let ?pr = "echo_producer ''correlation_id''"
  let ?p = "connected_publisher ?pr [] []"
  let ?a = "args0\<lparr> a_correlation_id := Some ''abc'' \<rparr>"
  have h1: "producer ?p = Some ?pr"
    by (simp add: connected_publisher_fields)
  have h2: "typed_dict PublishKwargs (message_kwargs ?p)"
    by (rule connected_publisher_typed)
  have h3: "typed_dict PublishKwargs (a_publish_kwargs ?a)"
    by (simp add: typed_dict_def args0_def)
  have h4: "typed_dict RequestPublishKwargs (a_publish_kwargs args0)"
    by (simp add: typed_dict_def args0_def)
  have h5: "fst (gen_probe []) \<noteq> []"
    by (simp add: gen_probe_def)
  have f: "a_correlation_id ?a = Some ''abc''" "a_extra_middlewares ?a = []"
          "a_correlation_id args0 = None" "a_extra_middlewares args0 = []"
          "middlewares ?p = []" "broker_middlewares ?p = []"
    by (simp_all add: args0_def connected_publisher_fields)
  have g: "gen_probe [] = (''generated-id'', [''gen_cor_id''])"
    by (simp add: gen_probe_def)
  note t = correlation_id_set [where gen = gen_probe and w = "[]" and s = store0, OF h1 h2 h3 h4 h5]
  from t f(1,2,5,6) obtain kwargs w1 where
    p: "publish gen_probe store0 ?p ?a [] = raised (producer_publish ?pr (a_message ?a) kwargs w1)"
    and k: "kwargs ''correlation_id'' = Some (PStr ''abc'')" and w: "w1 = []"
    by auto
  from p k w have e1: "publish gen_probe store0 ?p ?a [] = (Inr (PStr ''abc''), [''Producer.publish''])"
    by (simp add: echo_publish)
  from t f(3,4,5,6) g obtain kwargs' w1' where
    r: "request gen_probe store0 ?p args0 []
          = (case producer_request ?pr (a_message args0) kwargs' w1' of
               (Inl e, w2) \<Rightarrow> (Inl (Raised e), w2)
             | (Inr published_msg, w2) \<Rightarrow> scoped_response ?p ?pr published_msg w2)"
    and k': "kwargs' ''correlation_id'' = Some (PStr ''generated-id'')"
    by auto
  from r k' have e2: "fst (request gen_probe store0 ?p args0 [])
       = Inr \<lparr> raw_message = PStr ''generated-id'', body = PStr ''generated-id'',
               decoded_body = PStr ''generated-id'', source_type = Response \<rparr>"
    by (simp add: echo_request f(6))
  from h1 h2 h3 h4 h5 e1 e2 show ?thesis by simp
qed

text \<open>
  C10: in every call of \<open>publish\<close> or \<open>request\<close> on a configured publisher, the
  keyword dictionary with which the chain around the producer's operation is invoked does
  not carry an empty string given by the caller. For an empty \<open>correlation_id\<close> it holds
  the id drawn from \<open>gen_cor_id\<close>, and the whole call equals the call with \<open>None\<close>; for
  an empty \<open>routing_key\<close> it holds the publisher's bound routing key or, when that is
  empty too, the routing derived from the destination.
\<close>

theorem empty_overrides_fall_through:
  assumes "producer self = Some pr"
      and "typed_dict PublishKwargs (message_kwargs self)"
      and "typed_dict PublishKwargs (a_publish_kwargs a)"
      and "typed_dict RequestPublishKwargs (a_publish_kwargs b)"
  shows "(\<exists>kwargs w1.
            publish gen s self a w
              = raised (build_call self (a_extra_middlewares a) (producer_publish pr)
                          (a_message a) kwargs w1)
          \<and> (a_correlation_id a = Some [] \<longrightarrow>
                kwargs ''correlation_id'' = Some (PStr (fst (gen w))) \<and> w1 = snd (gen w))
          \<and> (a_routing_key a = [] \<longrightarrow>
                kwargs ''routing_key''
                  = Some (PStr (if routing_key self \<noteq> [] then routing_key self
                                else queue_routing
                                       (RabbitQueue_validate s (queue_or (a_queue a) (queue self)))))))
       \<and> (a_correlation_id a = Some [] \<longrightarrow>
            publish gen s self a w = publish gen s self (a\<lparr> a_correlation_id := None \<rparr>) w)
       \<and> (\<exists>kwargs w1.
            request gen s self b w
              = (case build_call self (a_extra_middlewares b) (producer_request pr)
                        (a_message b) kwargs w1 of
                   (Inl e, w2) \<Rightarrow> (Inl (Raised e), w2)
                 | (Inr published_msg, w2) \<Rightarrow> scoped_response self pr published_msg w2)
          \<and> (a_correlation_id b = Some [] \<longrightarrow>
                kwargs ''correlation_id'' = Some (PStr (fst (gen w))) \<and> w1 = snd (gen w))
          \<and> (a_routing_key b = [] \<longrightarrow>
                kwargs ''routing_key''
                  = Some (PStr (if routing_key self \<noteq> [] then routing_key self
                                else queue_routing
                                       (RabbitQueue_validate s (queue_or (a_queue b) (queue self)))))))
       \<and> (a_correlation_id b = Some [] \<longrightarrow>
            request gen s self b w = request gen s self (b\<lparr> a_correlation_id := None \<rparr>) w)"
proof -
  let ?K = "publish_kwargs_dict gen s self a w"
  let ?R = "request_kwargs_dict gen s self b w"
  have pp: "a_correlation_id a = Some [] \<longrightarrow>
             publish gen s self a w = publish gen s self (a\<lparr> a_correlation_id := None \<rparr>) w"
    by (simp add: publish_def publish_kwargs_dict_def correlation_id_or_def split: option.splits)
  have rr: "a_correlation_id b = Some [] \<longrightarrow>
             request gen s self b w = request gen s self (b\<lparr> a_correlation_id := None \<rparr>) w"
    by (simp add: request_def request_kwargs_dict_def correlation_id_or_def split: option.splits)
  have c1: "a_correlation_id a = Some [] \<longrightarrow>
             fst ?K ''correlation_id'' = Some (PStr (fst (gen w))) \<and> snd ?K = snd (gen w)"
    using publish_kwargs_correlation_id [OF assms(2,3), of gen s w]
    by (simp add: snd_publish_kwargs_dict correlation_id_or_cases)
  have c2: "a_correlation_id b = Some [] \<longrightarrow>
             fst ?R ''correlation_id'' = Some (PStr (fst (gen w))) \<and> snd ?R = snd (gen w)"
    using request_kwargs_correlation_id [OF assms(2) typed_dict_request_publish [OF assms(4)], of gen s w]
    by (simp add: snd_request_kwargs_dict correlation_id_or_cases)
  have k1: "a_routing_key a = [] \<longrightarrow>
            fst ?K ''routing_key''
              = Some (PStr (if routing_key self \<noteq> [] then routing_key self
                            else queue_routing (RabbitQueue_validate s (queue_or (a_queue a) (queue self)))))"
    using publish_kwargs_routing_key [OF assms(2,3), of gen s w]
    by (simp add: resolve_routing_key_def or_str_def)
  have k2: "a_routing_key b = [] \<longrightarrow>
            fst ?R ''routing_key''
              = Some (PStr (if routing_key self \<noteq> [] then routing_key self
                            else queue_routing (RabbitQueue_validate s (queue_or (a_queue b) (queue self)))))"
    using request_kwargs_routing_key [OF assms(2) typed_dict_request_publish [OF assms(4)], of gen s w]
    by (simp add: resolve_routing_key_def or_str_def)
  have p: "publish gen s self a w
             = raised (build_call self (a_extra_middlewares a) (producer_publish pr)
                         (a_message a) (fst ?K) (snd ?K))"
    by (rule publish_passes_dict [OF assms(1)])
  have r: "request gen s self b w
             = (case build_call self (a_extra_middlewares b) (producer_request pr)
                       (a_message b) (fst ?R) (snd ?R) of
                  (Inl e, w2) \<Rightarrow> (Inl (Raised e), w2)
                | (Inr published_msg, w2) \<Rightarrow> scoped_response self pr published_msg w2)"
    by (rule request_passes_dict [OF assms(1)])
  have e1: "\<exists>kwargs w1.
            publish gen s self a w
              = raised (build_call self (a_extra_middlewares a) (producer_publish pr)
                          (a_message a) kwargs w1)
          \<and> (a_correlation_id a = Some [] \<longrightarrow>
                kwargs ''correlation_id'' = Some (PStr (fst (gen w))) \<and> w1 = snd (gen w))
          \<and> (a_routing_key a = [] \<longrightarrow>
                kwargs ''routing_key''
                  = Some (PStr (if routing_key self \<noteq> [] then routing_key self
                                else queue_routing
                                       (RabbitQueue_validate s (queue_or (a_queue a) (queue self))))))"
    using p c1 k1 by blast
  have e2: "\<exists>kwargs w1.
            request gen s self b w
              = (case build_call self (a_extra_middlewares b) (producer_request pr)
                        (a_message b) kwargs w1 of
                   (Inl e, w2) \<Rightarrow> (Inl (Raised e), w2)
                 | (Inr published_msg, w2) \<Rightarrow> scoped_response self pr published_msg w2)
          \<and> (a_correlation_id b = Some [] \<longrightarrow>
                kwargs ''correlation_id'' = Some (PStr (fst (gen w))) \<and> w1 = snd (gen w))
          \<and> (a_routing_key b = [] \<longrightarrow>
                kwargs ''routing_key''
                  = Some (PStr (if routing_key self \<noteq> [] then routing_key self
                                else queue_routing
                                       (RabbitQueue_validate s (queue_or (a_queue b) (queue self))))))"
    using r c2 k2 by blast
  from e1 pp e2 rr show ?thesis by (intro conjI)
qed

theorem empty_overrides_fall_through_witness:
  "producer (connected_publisher (echo_producer ''correlation_id'') [] [])
     = Some (echo_producer ''correlation_id'')
   \<and> typed_dict PublishKwargs (message_kwargs (connected_publisher (echo_producer ''correlation_id'') [] []))
   \<and> typed_dict PublishKwargs (a_publish_kwargs (args0\<lparr> a_correlation_id := Some [] \<rparr>))
   \<and> typed_dict RequestPublishKwargs (a_publish_kwargs (args0\<lparr> a_correlation_id := Some [] \<rparr>))
   \<and> a_correlation_id (args0\<lparr> a_correlation_id := Some [] \<rparr>) = Some []
   \<and> a_routing_key (args0\<lparr> a_correlation_id := Some [] \<rparr>) = []
   \<and> publish gen_probe store0 (connected_publisher (echo_producer ''correlation_id'') [] [])
        (args0\<lparr> a_correlation_id := Some [] \<rparr>) []
       = (Inr (PStr ''generated-id''), [''gen_cor_id'', ''Producer.publish''])
   \<and> fst (request gen_probe store0 (connected_publisher (echo_producer ''routing_key'') [] [])
            (args0\<lparr> a_correlation_id := Some [] \<rparr>) [])
       = Inr \<lparr> raw_message = PStr ''orders'', body = PStr ''orders'',
               decoded_body = PStr ''orders'', source_type = Response \<rparr>"
proof -
  let ?pc = "echo_producer ''correlation_id''"
  let ?pk = "echo_producer ''routing_key''"
  let ?p = "connected_publisher ?pc [] []"
  let ?q = "connected_publisher ?pk [] []"
  let ?a = "args0\<lparr> a_correlation_id := Some [] \<rparr>"
  have h1: "producer ?p = Some ?pc" "producer ?q = Some ?pk"
    by (simp_all add: connected_publisher_fields)
  have h2: "typed_dict PublishKwargs (message_kwargs ?p)" "typed_dict PublishKwargs (message_kwargs ?q)"
    by (rule connected_publisher_typed)+
  have h3: "typed_dict PublishKwargs (a_publish_kwargs ?a)"
    by (simp add: typed_dict_def args0_def)
  have h4: "typed_dict RequestPublishKwargs (a_publish_kwargs ?a)"
    by (simp add: typed_dict_def args0_def)
  have f: "a_correlation_id ?a = Some []" "a_routing_key ?a = []" "a_queue ?a = QNone"
          "a_extra_middlewares ?a = []"
    by (simp_all add: args0_def)
  have g: "gen_probe [] = (''generated-id'', [''gen_cor_id''])"
    by (simp add: gen_probe_def)
  have o: "queue_routing (cells store0 0) = ''orders''"
    by (simp add: store0_def queue_routing_def or_str_def)
  have bc: "\<And>call. build_call ?p [] call = call" "\<And>call. build_call ?q [] call = call"
    by (simp_all add: build_call_bare connected_publisher_fields)
  note t = empty_overrides_fall_through
             [where gen = gen_probe and s = store0 and w = "[]", OF h1(1) h2(1) h3 h4]
  note u = empty_overrides_fall_through
             [where gen = gen_probe and s = store0 and w = "[]", OF h1(2) h2(2) h3 h4]
  from t obtain kwargs w1 where
    p: "publish gen_probe store0 ?p ?a []
          = raised (build_call ?p (a_extra_middlewares ?a) (producer_publish ?pc) (a_message ?a) kwargs w1)"
    and c: "a_correlation_id ?a = Some [] \<longrightarrow>
              kwargs ''correlation_id'' = Some (PStr (fst (gen_probe []))) \<and> w1 = snd (gen_probe [])"
    by blast
  from c f(1) g have k: "kwargs ''correlation_id'' = Some (PStr ''generated-id'')"
    and w: "w1 = [''gen_cor_id'']"
    by simp_all
  from p k w have e1: "publish gen_probe store0 ?p ?a []
                         = (Inr (PStr ''generated-id''), [''gen_cor_id'', ''Producer.publish''])"
    by (simp only: f(4) bc echo_publish) simp
  from u obtain kwargs' w1' where
    r: "request gen_probe store0 ?q ?a []
          = (case build_call ?q (a_extra_middlewares ?a) (producer_request ?pk) (a_message ?a) kwargs' w1' of
               (Inl e, w2) \<Rightarrow> (Inl (Raised e), w2)
             | (Inr published_msg, w2) \<Rightarrow> scoped_response ?q ?pk published_msg w2)"
    and c': "a_routing_key ?a = [] \<longrightarrow>
              kwargs' ''routing_key''
                = Some (PStr (if routing_key ?q \<noteq> [] then routing_key ?q
                              else queue_routing
                                     (RabbitQueue_validate store0 (queue_or (a_queue ?a) (queue ?q)))))"
    by blast
  from c' f(2,3) o have k': "kwargs' ''routing_key'' = Some (PStr ''orders'')"
    by (simp add: connected_publisher_fields)
  have bq: "broker_middlewares ?q = []"
    by (simp add: connected_publisher_fields)
  from r k' have e2: "fst (request gen_probe store0 ?q ?a [])
       = Inr \<lparr> raw_message = PStr ''orders'', body = PStr ''orders'',
               decoded_body = PStr ''orders'', source_type = Response \<rparr>"
    by (simp only: f(4) bc echo_request [OF bq]) simp
  from h1(1) h2(1) h3 h4 f(1,2) e1 e2 show ?thesis by simp
qed

subsection \<open>Order of the middlewares\<close>

lemma foldl_wrap_rev:
  "foldl (\<lambda>call m. m call) call (rev ms) = foldr (\<lambda>m call. m call) ms call"
  by (simp add: foldl_conv_foldr)

lemma build_call_extra:
  "extra \<noteq> [] \<Longrightarrow>
   build_call self extra call
     = foldl (\<lambda>call m. m call) (foldr (\<lambda>m call. m call) (middlewares self) call) extra"
  by (simp add: build_call_def foldl_wrap_rev)

lemma build_call_broker:
  "build_call self [] call
     = foldr (\<lambda>m call. m call)
         (map (\<lambda>m. publish_scope (m PNone)) (broker_middlewares self) @ middlewares self) call"
  by (simp add: build_call_def foldl_conv_foldr rev_map)

text \<open>
  C1 as stated fails: with publisher middlewares registered as \<open>[A, B]\<close>, no broker
  middlewares and no extra ones, the probes record \<open>A\<close> before \<open>B\<close> before the producer,
  in \<open>publish\<close> and in \<open>request\<close>; the order \<open>B\<close>, \<open>A\<close> that the claim gives is not
  what is observed.
\<close>

theorem middleware_order_counterexample:
  "publish gen_probe store0 (connected_publisher probe_producer [] [probe ''A'', probe ''B'']) args0 []
     = (Inr PNone, [''gen_cor_id'', ''A'', ''B'', ''Producer.publish''])
   \<and> snd (request gen_probe store0 (connected_publisher probe_producer [] [probe ''A'', probe ''B'']) args0 [])
     = [''gen_cor_id'', ''A'', ''B'', ''Producer.request'', ''parser'', ''decoder'']
   \<and> [''gen_cor_id'', ''A'', ''B'', ''Producer.publish''] \<noteq> [''gen_cor_id'', ''B'', ''A'', ''Producer.publish'']"
  by (simp add: probe_defs call_defs)

text \<open>
  C1, amended: with publisher middlewares \<open>[A, B]\<close>, no broker middlewares and no extra
  ones, the composed call is \<open>A\<close> around \<open>B\<close> around the producer's operation: the
  first-registered middleware is the outermost and runs first, the producer's call is
  the innermost and runs last.
\<close>

theorem middleware_order:
  assumes "producer self = Some pr"
      and "middlewares self = [A, B]"
      and "broker_middlewares self = []"
      and "a_extra_middlewares a = []"
      and "a_extra_middlewares b = []"
  shows "publish gen s self a w =
           (let (kwargs, w1) = publish_kwargs_dict gen s self a w
            in raised (A (B (producer_publish pr)) (a_message a) kwargs w1))
       \<and> request gen s self b w =
           (let (kwargs, w1) = request_kwargs_dict gen s self b w
            in case A (B (producer_request pr)) (a_message b) kwargs w1 of
                 (Inl e, w2) \<Rightarrow> (Inl (Raised e), w2)
               | (Inr published_msg, w2) \<Rightarrow> scoped_response self pr published_msg w2)"
  using assms by (simp add: publish_def request_def build_call_def)

theorem middleware_order_witness:
  "producer (connected_publisher probe_producer [] [probe ''A'', probe ''B'']) = Some probe_producer
   \<and> middlewares (connected_publisher probe_producer [] [probe ''A'', probe ''B'']) = [probe ''A'', probe ''B'']
   \<and> broker_middlewares (connected_publisher probe_producer [] [probe ''A'', probe ''B'']) = []
   \<and> a_extra_middlewares args0 = []
   \<and> snd (publish gen_probe store0 (connected_publisher probe_producer [] [probe ''A'', probe ''B'']) args0 [])
       = [''gen_cor_id'', ''A'', ''B'', ''Producer.publish'']"
proof -
  let ?p = "connected_publisher probe_producer [] [probe ''A'', probe ''B'']"
  have h: "producer ?p = Some probe_producer" "middlewares ?p = [probe ''A'', probe ''B'']"
          "broker_middlewares ?p = []" "a_extra_middlewares args0 = []"
    by (simp_all add: connected_publisher_def new_publisher_def LogicPublisher_setup_def
          LogicPublisher_init_def args0_def)
  have k: "snd (publish_kwargs_dict gen_probe store0 ?p args0 []) = [''gen_cor_id'']"
    by (simp add: publish_kwargs_dict_def correlation_id_or_def gen_probe_def args0_def)
  have "publish gen_probe store0 ?p args0 [] =
          (let (kwargs, w1) = publish_kwargs_dict gen_probe store0 ?p args0 []
           in raised (probe ''A'' (probe ''B'' (producer_publish probe_producer)) (a_message args0) kwargs w1))"
    using middleware_order [OF h(1) h(2) h(3) h(4) h(4), of gen_probe store0 "[]"] by blast
  then have "snd (publish gen_probe store0 ?p args0 []) = [''gen_cor_id'', ''A'', ''B'', ''Producer.publish'']"
    using k by (simp add: probe_def probe_producer_def raised_def split: prod.splits)
  with h show ?thesis by simp
qed

text \<open>
  C6: when the call brings a non-empty list of extra middlewares, the outbound chain is
  the publisher's middlewares around the producer's operation, wrapped by the extra
  middlewares; it is the same whatever the broker middlewares are, and the publisher is
  not changed. Without extra middlewares the chain is the broker middlewares'
  \<open>publish_scope\<close>s around the publisher's middlewares around the producer's operation.
\<close>

theorem extra_middlewares_replace_broker_tier:
  assumes "producer self = Some pr"
  shows "(a_extra_middlewares a \<noteq> [] \<longrightarrow>
            publish gen s self a w =
              (let (kwargs, w1) = publish_kwargs_dict gen s self a w
               in raised (foldl (\<lambda>call m. m call)
                            (foldr (\<lambda>m call. m call) (middlewares self) (producer_publish pr))
                            (a_extra_middlewares a) (a_message a) kwargs w1))
          \<and> publish gen s (self\<lparr> broker_middlewares := bms \<rparr>) a w = publish gen s self a w)
       \<and> (a_extra_middlewares a = [] \<longrightarrow>
            publish gen s self a w =
              (let (kwargs, w1) = publish_kwargs_dict gen s self a w
               in raised (foldr (\<lambda>m call. m call)
                            (map (\<lambda>m. publish_scope (m PNone)) (broker_middlewares self) @ middlewares self)
                            (producer_publish pr) (a_message a) kwargs w1)))
       \<and> (a_extra_middlewares b \<noteq> [] \<longrightarrow>
            request gen s self b w =
              (let (kwargs, w1) = request_kwargs_dict gen s self b w
               in case foldl (\<lambda>call m. m call)
                         (foldr (\<lambda>m call. m call) (middlewares self) (producer_request pr))
                         (a_extra_middlewares b) (a_message b) kwargs w1 of
                    (Inl e, w2) \<Rightarrow> (Inl (Raised e), w2)
                  | (Inr published_msg, w2) \<Rightarrow> scoped_response self pr published_msg w2))
       \<and> (a_extra_middlewares b = [] \<longrightarrow>
            request gen s self b w =
              (let (kwargs, w1) = request_kwargs_dict gen s self b w
               in case foldr (\<lambda>m call. m call)
                         (map (\<lambda>m. publish_scope (m PNone)) (broker_middlewares self) @ middlewares self)
                         (producer_request pr) (a_message b) kwargs w1 of
                    (Inl e, w2) \<Rightarrow> (Inl (Raised e), w2)
                  | (Inr published_msg, w2) \<Rightarrow> scoped_response self pr published_msg w2))"
proof -
  have kw: "publish_kwargs_dict gen s (self\<lparr> broker_middlewares := bms \<rparr>) a w
              = publish_kwargs_dict gen s self a w"
    by (simp add: publish_kwargs_dict_def resolve_routing_key_def resolve_exchange_def)
  have bc: "a_extra_middlewares a \<noteq> [] \<Longrightarrow>
              build_call (self\<lparr> broker_middlewares := bms \<rparr>) (a_extra_middlewares a)
                = build_call self (a_extra_middlewares a)"
    by (simp add: build_call_def fun_eq_iff)
  have p1: "a_extra_middlewares a \<noteq> [] \<Longrightarrow>
              publish gen s (self\<lparr> broker_middlewares := bms \<rparr>) a w = publish gen s self a w"
    using assms by (simp add: publish_def kw bc)
  have p2: "a_extra_middlewares a \<noteq> [] \<Longrightarrow>
            publish gen s self a w =
              (let (kwargs, w1) = publish_kwargs_dict gen s self a w
               in raised (foldl (\<lambda>call m. m call)
                            (foldr (\<lambda>m call. m call) (middlewares self) (producer_publish pr))
                            (a_extra_middlewares a) (a_message a) kwargs w1))"
    using assms by (simp add: publish_def build_call_extra)
  have p3: "a_extra_middlewares a = [] \<Longrightarrow>
            publish gen s self a w =
              (let (kwargs, w1) = publish_kwargs_dict gen s self a w
               in raised (foldr (\<lambda>m call. m call)
                            (map (\<lambda>m. publish_scope (m PNone)) (broker_middlewares self) @ middlewares self)
                            (producer_publish pr) (a_message a) kwargs w1))"
    using assms by (simp add: publish_def build_call_broker)
  have r1: "a_extra_middlewares b \<noteq> [] \<Longrightarrow>
            request gen s self b w =
              (let (kwargs, w1) = request_kwargs_dict gen s self b w
               in case foldl (\<lambda>call m. m call)
                         (foldr (\<lambda>m call. m call) (middlewares self) (producer_request pr))
                         (a_extra_middlewares b) (a_message b) kwargs w1 of
                    (Inl e, w2) \<Rightarrow> (Inl (Raised e), w2)
                  | (Inr published_msg, w2) \<Rightarrow> scoped_response self pr published_msg w2)"
    using assms by (simp add: request_def build_call_extra)
  have r2: "a_extra_middlewares b = [] \<Longrightarrow>
            request gen s self b w =
              (let (kwargs, w1) = request_kwargs_dict gen s self b w
               in case foldr (\<lambda>m call. m call)
                         (map (\<lambda>m. publish_scope (m PNone)) (broker_middlewares self) @ middlewares self)
                         (producer_request pr) (a_message b) kwargs w1 of
                    (Inl e, w2) \<Rightarrow> (Inl (Raised e), w2)
                  | (Inr published_msg, w2) \<Rightarrow> scoped_response self pr published_msg w2)"
    using assms by (simp add: request_def build_call_broker)
  show ?thesis
    using p1 p2 p3 r1 r2 by blast
qed

theorem extra_middlewares_replace_broker_tier_witness:
  "producer (connected_publisher probe_producer [broker_probe ''X'' False] [probe ''A'']) = Some probe_producer
   \<and> a_extra_middlewares (args0\<lparr> a_extra_middlewares := [probe ''E''] \<rparr>) \<noteq> []
   \<and> a_extra_middlewares args0 = []
   \<and> snd (publish gen_probe store0 (connected_publisher probe_producer [broker_probe ''X'' False] [probe ''A''])
            (args0\<lparr> a_extra_middlewares := [probe ''E''] \<rparr>) [])
       = [''gen_cor_id'', ''E'', ''A'', ''Producer.publish'']
   \<and> snd (publish gen_probe store0 (connected_publisher probe_producer [broker_probe ''X'' False] [probe ''A''])
            args0 [])
       = [''gen_cor_id'', ''X.publish_scope'', ''A'', ''Producer.publish'']"
proof -
  let ?p = "connected_publisher probe_producer [broker_probe ''X'' False] [probe ''A'']"
  let ?a = "args0\<lparr> a_extra_middlewares := [probe ''E''] \<rparr>"
  have h: "producer ?p = Some probe_producer"
    by (simp add: connected_publisher_def LogicPublisher_setup_def)
  have f: "a_extra_middlewares ?a = [probe ''E'']" "a_extra_middlewares args0 = []"
          "middlewares ?p = [probe ''A'']" "broker_middlewares ?p = [broker_probe ''X'' False]"
    by (simp_all add: connected_publisher_def new_publisher_def LogicPublisher_setup_def
          LogicPublisher_init_def args0_def)
  have k: "snd (publish_kwargs_dict gen_probe store0 ?p ?a []) = [''gen_cor_id'']"
          "snd (publish_kwargs_dict gen_probe store0 ?p args0 []) = [''gen_cor_id'']"
    by (simp_all add: publish_kwargs_dict_def correlation_id_or_def gen_probe_def args0_def)
  have pp: "producer_publish probe_producer = (\<lambda>msg kwargs w. (Inr PNone, w @ [''Producer.publish'']))"
    by (simp add: probe_producer_def)
  have xs: "publish_scope (broker_probe ''X'' False PNone) = probe ''X.publish_scope''"
    by (simp add: broker_probe_def)
  have ne: "a_extra_middlewares ?a \<noteq> []"
    by (simp add: f)
  have "publish gen_probe store0 ?p ?a [] =
          (let (kwargs, w1) = publish_kwargs_dict gen_probe store0 ?p ?a []
           in raised (foldl (\<lambda>call m. m call)
                        (foldr (\<lambda>m call. m call) (middlewares ?p) (producer_publish probe_producer))
                        (a_extra_middlewares ?a) (a_message ?a) kwargs w1))"
    using extra_middlewares_replace_broker_tier [OF h, of ?a gen_probe store0 "[]"] ne by blast
  then have e: "snd (publish gen_probe store0 ?p ?a []) = [''gen_cor_id'', ''E'', ''A'', ''Producer.publish'']"
    using k(1) by (simp add: f pp probe_def raised_def split: prod.splits)
  have "publish gen_probe store0 ?p args0 [] =
          (let (kwargs, w1) = publish_kwargs_dict gen_probe store0 ?p args0 []
           in raised (foldr (\<lambda>m call. m call)
                        (map (\<lambda>m. publish_scope (m PNone)) (broker_middlewares ?p) @ middlewares ?p)
                        (producer_publish probe_producer) (a_message args0) kwargs w1))"
    using extra_middlewares_replace_broker_tier [OF h, of args0 gen_probe store0 "[]"] f(2) by blast
  then have n: "snd (publish gen_probe store0 ?p args0 [])
             = [''gen_cor_id'', ''X.publish_scope'', ''A'', ''Producer.publish'']"
    using k(2) by (simp add: f pp xs probe_def raised_def split: prod.splits)
  from h ne f(2) e n show ?thesis by simp
qed

subsection \<open>Merging of the options\<close>

lemma publish_kwargs_dict_per_call:
  "a_publish_kwargs a k = Some v \<Longrightarrow> fst (publish_kwargs_dict gen s self a w) k = Some v"
  by (simp add: publish_kwargs_dict_def map_add_def split: prod.splits)

lemma publish_kwargs_dict_stored:
  "a_publish_kwargs a k = None \<Longrightarrow> message_kwargs self k = Some v \<Longrightarrow>
   fst (publish_kwargs_dict gen s self a w) k = Some v"
  by (simp add: publish_kwargs_dict_def map_add_def split: prod.splits)

lemma publish_kwargs_dict_other:
  "a_publish_kwargs a k = None \<Longrightarrow> message_kwargs self k = None \<Longrightarrow>
   k \<notin> set fixed_publish_keys \<Longrightarrow> fst (publish_kwargs_dict gen s self a w) k = None"
  by (simp add: publish_kwargs_dict_def map_add_def fixed_publish_keys_def split: prod.splits)

lemma request_kwargs_dict_per_call:
  "a_publish_kwargs a k = Some v \<Longrightarrow> fst (request_kwargs_dict gen s self a w) k = Some v"
  by (simp add: request_kwargs_dict_def map_add_def split: prod.splits)

lemma request_kwargs_dict_stored:
  "a_publish_kwargs a k = None \<Longrightarrow> message_kwargs self k = Some v \<Longrightarrow>
   fst (request_kwargs_dict gen s self a w) k = Some v"
  by (simp add: request_kwargs_dict_def map_add_def split: prod.splits)

lemma request_kwargs_dict_other:
  "a_publish_kwargs a k = None \<Longrightarrow> message_kwargs self k = None \<Longrightarrow>
   k \<notin> set fixed_request_keys \<Longrightarrow> fst (request_kwargs_dict gen s self a w) k = None"
  by (simp add: request_kwargs_dict_def map_add_def fixed_request_keys_def split: prod.splits)

text \<open>
  C7: every call of \<open>publish\<close> or \<open>request\<close> on a configured publisher invokes the
  composed chain around the producer's operation (the producer's operation itself when
  there is no middleware) with a keyword dictionary that merges the publisher's stored
  message options and then the per-call options over the literal's own entries: a
  per-call option is delivered as given; a stored option is delivered unless the call
  gives the same key; no other key is added.
\<close>

theorem options_merge:
  assumes "producer self = Some pr"
  shows "(\<exists>kwargs w1.
            publish gen s self a w
              = raised (build_call self (a_extra_middlewares a) (producer_publish pr)
                          (a_message a) kwargs w1)
          \<and> (middlewares self = [] \<and> broker_middlewares self = [] \<and> a_extra_middlewares a = [] \<longrightarrow>
                publish gen s self a w = raised (producer_publish pr (a_message a) kwargs w1))
          \<and> (\<forall>k v. a_publish_kwargs a k = Some v \<longrightarrow> kwargs k = Some v)
          \<and> (\<forall>k v. a_publish_kwargs a k = None \<and> message_kwargs self k = Some v \<longrightarrow> kwargs k = Some v)
          \<and> (\<forall>k. a_publish_kwargs a k = None \<and> message_kwargs self k = None
                   \<and> k \<notin> set fixed_publish_keys \<longrightarrow> kwargs k = None))
       \<and> (\<exists>kwargs w1.
            request gen s self b w
              = (case build_call self (a_extra_middlewares b) (producer_request pr)
                        (a_message b) kwargs w1 of
                   (Inl e, w2) \<Rightarrow> (Inl (Raised e), w2)
                 | (Inr published_msg, w2) \<Rightarrow> scoped_response self pr published_msg w2)
          \<and> (middlewares self = [] \<and> broker_middlewares self = [] \<and> a_extra_middlewares b = [] \<longrightarrow>
                request gen s self b w
                  = (case producer_request pr (a_message b) kwargs w1 of
                       (Inl e, w2) \<Rightarrow> (Inl (Raised e), w2)
                     | (Inr published_msg, w2) \<Rightarrow> scoped_response self pr published_msg w2))
          \<and> (\<forall>k v. a_publish_kwargs b k = Some v \<longrightarrow> kwargs k = Some v)
          \<and> (\<forall>k v. a_publish_kwargs b k = None \<and> message_kwargs self k = Some v \<longrightarrow> kwargs k = Some v)
          \<and> (\<forall>k. a_publish_kwargs b k = None \<and> message_kwargs self k = None
                   \<and> k \<notin> set fixed_request_keys \<longrightarrow> kwargs k = None))"
proof (rule conjI)
  let ?K = "publish_kwargs_dict gen s self a w"
  have p: "publish gen s self a w
             = raised (build_call self (a_extra_middlewares a) (producer_publish pr)
                         (a_message a) (fst ?K) (snd ?K))"
    by (rule publish_passes_dict [OF assms])
  have d: "middlewares self = [] \<and> broker_middlewares self = [] \<and> a_extra_middlewares a = [] \<longrightarrow>
             publish gen s self a w = raised (producer_publish pr (a_message a) (fst ?K) (snd ?K))"
    using p by (auto simp: build_call_bare)
  have m: "\<forall>k v. a_publish_kwargs a k = Some v \<longrightarrow> fst ?K k = Some v"
          "\<forall>k v. a_publish_kwargs a k = None \<and> message_kwargs self k = Some v \<longrightarrow> fst ?K k = Some v"
          "\<forall>k. a_publish_kwargs a k = None \<and> message_kwargs self k = None
                 \<and> k \<notin> set fixed_publish_keys \<longrightarrow> fst ?K k = None"
    by (simp_all add: publish_kwargs_dict_per_call publish_kwargs_dict_stored publish_kwargs_dict_other)
  show "\<exists>kwargs w1.
            publish gen s self a w
              = raised (build_call self (a_extra_middlewares a) (producer_publish pr)
                          (a_message a) kwargs w1)
          \<and> (middlewares self = [] \<and> broker_middlewares self = [] \<and> a_extra_middlewares a = [] \<longrightarrow>
                publish gen s self a w = raised (producer_publish pr (a_message a) kwargs w1))
          \<and> (\<forall>k v. a_publish_kwargs a k = Some v \<longrightarrow> kwargs k = Some v)
          \<and> (\<forall>k v. a_publish_kwargs a k = None \<and> message_kwargs self k = Some v \<longrightarrow> kwargs k = Some v)
          \<and> (\<forall>k. a_publish_kwargs a k = None \<and> message_kwargs self k = None
                   \<and> k \<notin> set fixed_publish_keys \<longrightarrow> kwargs k = None)"
    using p d m by blast
next
  let ?K = "request_kwargs_dict gen s self b w"
  have p: "request gen s self b w
             = (case build_call self (a_extra_middlewares b) (producer_request pr)
                       (a_message b) (fst ?K) (snd ?K) of
                  (Inl e, w2) \<Rightarrow> (Inl (Raised e), w2)
                | (Inr published_msg, w2) \<Rightarrow> scoped_response self pr published_msg w2)"
    by (rule request_passes_dict [OF assms])
  have d: "middlewares self = [] \<and> broker_middlewares self = [] \<and> a_extra_middlewares b = [] \<longrightarrow>
             request gen s self b w
               = (case producer_request pr (a_message b) (fst ?K) (snd ?K) of
                    (Inl e, w2) \<Rightarrow> (Inl (Raised e), w2)
                  | (Inr published_msg, w2) \<Rightarrow> scoped_response self pr published_msg w2)"
    using p by (auto simp: build_call_bare)
  have m: "\<forall>k v. a_publish_kwargs b k = Some v \<longrightarrow> fst ?K k = Some v"
          "\<forall>k v. a_publish_kwargs b k = None \<and> message_kwargs self k = Some v \<longrightarrow> fst ?K k = Some v"
          "\<forall>k. a_publish_kwargs b k = None \<and> message_kwargs self k = None
                 \<and> k \<notin> set fixed_request_keys \<longrightarrow> fst ?K k = None"
    by (simp_all add: request_kwargs_dict_per_call request_kwargs_dict_stored request_kwargs_dict_other)
  show "\<exists>kwargs w1.
            request gen s self b w
              = (case build_call self (a_extra_middlewares b) (producer_request pr)
                        (a_message b) kwargs w1 of
                   (Inl e, w2) \<Rightarrow> (Inl (Raised e), w2)
                 | (Inr published_msg, w2) \<Rightarrow> scoped_response self pr published_msg w2)
          \<and> (middlewares self = [] \<and> broker_middlewares self = [] \<and> a_extra_middlewares b = [] \<longrightarrow>
                request gen s self b w
                  = (case producer_request pr (a_message b) kwargs w1 of
                       (Inl e, w2) \<Rightarrow> (Inl (Raised e), w2)
                     | (Inr published_msg, w2) \<Rightarrow> scoped_response self pr published_msg w2))
          \<and> (\<forall>k v. a_publish_kwargs b k = Some v \<longrightarrow> kwargs k = Some v)
          \<and> (\<forall>k v. a_publish_kwargs b k = None \<and> message_kwargs self k = Some v \<longrightarrow> kwargs k = Some v)
          \<and> (\<forall>k. a_publish_kwargs b k = None \<and> message_kwargs self k = None
                   \<and> k \<notin> set fixed_request_keys \<longrightarrow> kwargs k = None)"
    using p d m by blast
qed

theorem options_merge_witness:
  "producer (connected_publisher (echo_producer ''priority'') [] []) = Some (echo_producer ''priority'')
   \<and> a_publish_kwargs (args0\<lparr> a_publish_kwargs := [''priority'' \<mapsto> PInt 9] \<rparr>) ''priority'' = Some (PInt 9)
   \<and> message_kwargs (connected_publisher (echo_producer ''priority'') [] []) ''priority'' = Some (PInt 5)
   \<and> a_publish_kwargs args0 ''priority'' = None
   \<and> fst (publish gen_probe store0 (connected_publisher (echo_producer ''priority'') [] [])
            (args0\<lparr> a_publish_kwargs := [''priority'' \<mapsto> PInt 9] \<rparr>) [])
       = Inr (PInt 9)
   \<and> fst (request gen_probe store0 (connected_publisher (echo_producer ''priority'') [] []) args0 [])
       = Inr \<lparr> raw_message = PInt 5, body = PInt 5, decoded_body = PInt 5, source_type = Response \<rparr>"
proof -
  let ?pr = "echo_producer ''priority''"
  let ?p = "connected_publisher ?pr [] []"
  let ?a = "args0\<lparr> a_publish_kwargs := [''priority'' \<mapsto> PInt 9] \<rparr>"
  have h1: "producer ?p = Some ?pr"
    by (simp add: connected_publisher_fields)
  have f: "a_publish_kwargs ?a ''priority'' = Some (PInt 9)"
          "message_kwargs ?p ''priority'' = Some (PInt 5)"
          "a_publish_kwargs args0 ''priority'' = None"
          "a_extra_middlewares ?a = []" "a_extra_middlewares args0 = []"
          "middlewares ?p = []" "broker_middlewares ?p = []"
    by (simp_all add: args0_def connected_publisher_fields)
  note t = options_merge [OF h1, where gen = gen_probe and s = store0 and w = "[]" and a = ?a and b = args0]
  from t f obtain kwargs w1 where
    p: "publish gen_probe store0 ?p ?a [] = raised (producer_publish ?pr (a_message ?a) kwargs w1)"
    and k: "kwargs ''priority'' = Some (PInt 9)"
    by blast
  from p k have e1: "fst (publish gen_probe store0 ?p ?a []) = Inr (PInt 9)"
    by (simp add: echo_publish)
  from t f obtain kwargs' w1' where
    r: "request gen_probe store0 ?p args0 []
          = (case producer_request ?pr (a_message args0) kwargs' w1' of
               (Inl e, w2) \<Rightarrow> (Inl (Raised e), w2)
             | (Inr published_msg, w2) \<Rightarrow> scoped_response ?p ?pr published_msg w2)"
    and k': "kwargs' ''priority'' = Some (PInt 5)"
    by blast
  from r k' have e2: "fst (request gen_probe store0 ?p args0 [])
       = Inr \<lparr> raw_message = PInt 5, body = PInt 5, decoded_body = PInt 5, source_type = Response \<rparr>"
    by (simp add: echo_request f(7))
  from h1 f(1,2,3) e1 e2 show ?thesis by simp
qed


text \<open>
  The stored options are those of the constructor without \<open>reply_to\<close>. A \<open>reply_to\<close>
  given at construction is the default of \<open>publish\<close>, through the literal's own entry;
  \<open>request\<close> does not send it.
\<close>

lemma stored_reply_to:
  assumes "message_kwargs' ''reply_to'' = Some v" and "a_publish_kwargs a ''reply_to'' = None"
      and "a_publish_kwargs b ''reply_to'' = None"
  shows "fst (publish_kwargs_dict gen s
                (LogicPublisher_init rk q ex message_kwargs' bms ms) a w) ''reply_to'' = Some v"
    and "fst (request_kwargs_dict gen s
                (LogicPublisher_init rk q ex message_kwargs' bms ms) b w) ''reply_to'' = None"
  using assms
  by (simp_all add: publish_kwargs_dict_def request_kwargs_dict_def LogicPublisher_init_def
        map_add_def split: prod.splits)

subsection \<open>Connection state\<close>

lemma fst_raised_connected: "fst (raised r) \<noteq> Inl NotConnected"
  by (simp add: raised_def split: prod.splits sum.splits)

lemma fst_scoped_response_connected: "fst (scoped_response self pr m w) \<noteq> Inl NotConnected"
  by (simp add: scoped_response_def split: prod.splits sum.splits option.splits bool.splits)

text \<open>
  C4 as stated fails after a \<open>setup\<close> that is given no producer, which its signature
  allows: \<open>publish\<close> and \<open>request\<close> still raise the not-connected assertion.
\<close>

theorem setup_without_producer_counterexample:
  "publish gen_probe store0 (LogicPublisher_setup (new_publisher [] []) None None ''/'') args0 []
     = (Inl NotConnected, [])
   \<and> request gen_probe store0 (LogicPublisher_setup (new_publisher [] []) None None ''/'') args0 []
     = (Inl NotConnected, [])"
  by (simp add: publish_def request_def probe_defs)

text \<open>
  C4, amended: on a publisher fresh from its constructor \<open>publish\<close> and \<open>request\<close> fail
  with the not-connected assertion; after \<open>setup\<close> with a producer neither of them
  does; after \<open>setup\<close> with \<open>None\<close> as producer they still do.
\<close>

theorem not_connected_before_setup:
  "fst (publish gen s (LogicPublisher_init rk q ex mk bms ms) a w) = Inl NotConnected
   \<and> fst (request gen s (LogicPublisher_init rk q ex mk bms ms) b w) = Inl NotConnected
   \<and> fst (publish gen s (LogicPublisher_setup self (Some pr) app vh) a w) \<noteq> Inl NotConnected
   \<and> fst (request gen s (LogicPublisher_setup self (Some pr) app vh) b w) \<noteq> Inl NotConnected
   \<and> fst (publish gen s (LogicPublisher_setup self None app vh) a w) = Inl NotConnected
   \<and> fst (request gen s (LogicPublisher_setup self None app vh) b w) = Inl NotConnected"
proof -
  have r: "fst (request gen s (LogicPublisher_setup self (Some pr) app vh) b w) \<noteq> Inl NotConnected"
    by (simp add: request_def LogicPublisher_setup_def fst_scoped_response_connected
          split: prod.splits sum.splits)
  have p: "fst (publish gen s (LogicPublisher_setup self (Some pr) app vh) a w) \<noteq> Inl NotConnected"
    by (simp add: publish_def LogicPublisher_setup_def fst_raised_connected split: prod.splits)
  show ?thesis
    using r p by (simp add: publish_def request_def LogicPublisher_init_def LogicPublisher_setup_def)
qed

subsection \<open>Prefixing the destination\<close>

lemma routing_after_add_prefix:
  "routing (fst (add_prefix s self prefix)) (snd (add_prefix s self prefix))
     = or_str (routing_key self)
         (or_str (queue_routing_key (cells s (queue self))) (prefix @ queue_name (cells s (queue self))))"
  by (simp add: add_prefix_def deepcopy_def routing_def queue_routing_def)

lemma cells_after_add_prefix:
  "r < next_ref s \<Longrightarrow> cells (fst (add_prefix s self prefix)) r = cells s r"
  by (simp add: add_prefix_def deepcopy_def)

text \<open>
  C8: for a publisher with no routing key of its own, bound to a descriptor named \<open>n\<close>
  that has no routing key either, \<open>add_prefix\<close> makes the publisher's routing
  \<open>prefix @ n\<close>; the publisher now refers to a fresh descriptor, every descriptor that
  existed before is unchanged, and another publisher that shares the original descriptor
  still has routing \<open>n\<close>. The witness is the case \<open>orders\<close> and \<open>x.\<close>.
\<close>

theorem add_prefix_copy_on_write:
  assumes "queue self < next_ref s"
      and "queue other = queue self"
      and "routing_key self = []" and "routing_key other = []"
      and "queue_routing_key (cells s (queue self)) = []"
      and "queue_name (cells s (queue self)) = n"
  shows "routing (fst (add_prefix s self prefix)) (snd (add_prefix s self prefix)) = prefix @ n
       \<and> cells (fst (add_prefix s self prefix)) (queue self) = cells s (queue self)
       \<and> routing (fst (add_prefix s self prefix)) other = n
       \<and> (\<forall>r < next_ref s. cells (fst (add_prefix s self prefix)) r = cells s r)
       \<and> queue (snd (add_prefix s self prefix)) \<noteq> queue self"
proof -
  have a: "routing (fst (add_prefix s self prefix)) (snd (add_prefix s self prefix)) = prefix @ n"
    using assms by (simp add: routing_after_add_prefix or_str_def)
  have b: "\<forall>r < next_ref s. cells (fst (add_prefix s self prefix)) r = cells s r"
    by (simp add: cells_after_add_prefix)
  have c: "routing (fst (add_prefix s self prefix)) other = n"
    using assms b by (simp add: routing_def queue_routing_def or_str_def)
  have d: "queue (snd (add_prefix s self prefix)) \<noteq> queue self"
    using assms(1) by (simp add: add_prefix_def deepcopy_def)
  show ?thesis
    using a b c d assms(1) by simp
qed

theorem add_prefix_copy_on_write_witness:
  "queue (new_publisher [] []) < next_ref store0
   \<and> routing_key (new_publisher [] []) = []
   \<and> queue_routing_key (cells store0 (queue (new_publisher [] []))) = []
   \<and> queue_name (cells store0 (queue (new_publisher [] []))) = ''orders''
   \<and> routing store0 (new_publisher [] [probe ''A'']) = ''orders''
   \<and> routing (fst (add_prefix store0 (new_publisher [] []) ''x.''))
              (snd (add_prefix store0 (new_publisher [] []) ''x.'')) = ''x.orders''
   \<and> routing (fst (add_prefix store0 (new_publisher [] []) ''x.'')) (new_publisher [] [probe ''A''])
       = ''orders''"
proof -
  let ?p = "new_publisher [] []"
  let ?o = "new_publisher [] [probe ''A'']"
  have h: "queue ?p < next_ref store0" "queue ?o = queue ?p" "routing_key ?p = []" "routing_key ?o = []"
          "queue_routing_key (cells store0 (queue ?p)) = []"
          "queue_name (cells store0 (queue ?p)) = ''orders''"
    by (simp_all add: new_publisher_def LogicPublisher_init_def store0_def)
  have o: "routing store0 ?o = ''orders''"
    by (simp add: routing_def queue_routing_def or_str_def new_publisher_def LogicPublisher_init_def store0_def)
  from add_prefix_copy_on_write [OF h, of "''x.''"] h o
  show ?thesis by simp
qed

subsection \<open>The scoped consumption of the reply\<close>

lemma aexit_stack_pending:
  "aexit_stack cbs exc sp pend w = ((exc', sp', True), w') \<Longrightarrow> (pend \<Longrightarrow> exc \<noteq> None) \<Longrightarrow>
   exc' \<noteq> None"
proof (induction cbs arbitrary: exc sp pend w)
  case Nil
  then show ?case by auto
next
  case (Cons cb cbs)
  show ?case
  proof (cases "aexit cb exc w")
    case (Pair r w1)
    show ?thesis
    proof (cases r)
      case (Inl new_exc)
      with Pair Cons.prems(1) have "aexit_stack cbs (Some new_exc) sp True w1 = ((exc', sp', True), w')"
        by simp
      then show ?thesis by (rule Cons.IH) simp
    next
      case (Inr cb_suppress)
      show ?thesis
      proof (cases cb_suppress)
        case True
        with Inr Pair Cons.prems(1) have "aexit_stack cbs None True False w1 = ((exc', sp', True), w')"
          by simp
        then show ?thesis by (rule Cons.IH) simp
      next
        case False
        with Inr Pair Cons.prems(1) have "aexit_stack cbs exc sp pend w1 = ((exc', sp', True), w')"
          by simp
        then show ?thesis using Cons.prems(2) by (rule Cons.IH)
      qed
    qed
  qed
qed

lemma aexit_stack_suppressed:
  "aexit_stack cbs exc sp pend w = ((exc', True, pend'), w') \<Longrightarrow> \<not> sp \<Longrightarrow>
   \<exists>cb \<in> set cbs. \<exists>e w1. fst (aexit cb e w1) = Inr True"
proof (induction cbs arbitrary: exc sp pend w)
  case Nil
  then show ?case by auto
next
  case (Cons cb cbs)
  show ?case
  proof (cases "aexit cb exc w")
    case (Pair r w1)
    show ?thesis
    proof (cases "r = Inr True")
      case True
      with Pair have "fst (aexit cb exc w) = Inr True" by simp
      then show ?thesis by auto
    next
      case False
      then have "\<exists>e. aexit_stack cbs e sp (pend \<or> isl r) w1 = ((exc', True, pend'), w')"
        using Pair Cons.prems(1) by (cases r) (auto split: if_splits)
      then obtain e where "aexit_stack cbs e sp (pend \<or> isl r) w1 = ((exc', True, pend'), w')" ..
      from Cons.IH [OF this Cons.prems(2)] show ?thesis by auto
    qed
  qed
qed

lemma enter_middlewares_entered:
  "enter_middlewares ms raw stack rm w = ((None, stack', rm'), w') \<Longrightarrow>
   stack' = rev (map (\<lambda>m. m raw) ms) @ stack
   \<and> rm' = foldl (\<lambda>r m. consume_scope (m raw) r) rm ms"
proof (induction ms arbitrary: stack rm w)
  case Nil
  then show ?case by simp
next
  case (Cons m ms)
  then show ?case
    by (auto simp: Let_def split: prod.splits sum.splits)
qed

lemma enter_middlewares_stack:
  "enter_middlewares ms raw stack rm w = ((exc, stack', rm'), w') \<Longrightarrow>
   set stack' \<subseteq> (\<lambda>m. m raw) ` set ms \<union> set stack"
proof (induction ms arbitrary: stack rm w)
  case Nil
  then show ?case by auto
next
  case (Cons m ms)
  show ?case
  proof (cases "aenter (m raw) w")
    case (Pair r w1)
    show ?thesis
    proof (cases r)
      case (Inl e)
      with Pair Cons.prems show ?thesis by (auto simp: Let_def)
    next
      case (Inr u)
      with Pair Cons.prems
      have "enter_middlewares ms raw (m raw # stack) (consume_scope (m raw) rm) w1 = ((exc, stack', rm'), w')"
        by (simp add: Let_def)
      from Cons.IH [OF this] show ?thesis by auto
    qed
  qed
qed

text \<open>The inbound chain and what request returns on the path where nothing raises.\<close>

lemma scoped_response_returns:
  assumes "enter_middlewares (rev (broker_middlewares self)) raw [] return_input w = ((None, stack, rm), w1)"
      and "parser pr raw w1 = (Inr parsed, w2)"
      and "decoder pr parsed w2 = (Inr d, w3)"
      and "foldr (\<lambda>m. consume_scope (m raw)) (broker_middlewares self) return_input
             (parsed\<lparr> decoded_body := d, source_type := Response \<rparr>) w3 = (Inr v, w4)"
      and "aexit_stack (map (\<lambda>m. m raw) (broker_middlewares self)) None False False w4
             = ((exc, sp, False), w5)"
  shows "scoped_response self pr raw w = (Inr v, w5)"
proof -
  from enter_middlewares_entered [OF assms(1)]
  have s: "stack = map (\<lambda>m. m raw) (broker_middlewares self)"
   and r: "rm = foldr (\<lambda>m. consume_scope (m raw)) (broker_middlewares self) return_input"
    by (simp_all add: rev_map foldl_conv_foldr)
  show ?thesis
    using assms(1) assms(2,3,4,5) [folded s r]
    by (simp add: scoped_response_def parse_and_return_def)
qed

text \<open>The guard is reached only when some entered middleware's exit suppresses.\<close>

lemma scoped_response_unreachable:
  assumes "fst (scoped_response self pr raw w) = Inl Unreachable"
  shows "\<exists>m \<in> set (broker_middlewares self). \<exists>e w1. fst (aexit (m raw) e w1) = Inr True"
proof -
  obtain entered stack rm w1 where
    e: "enter_middlewares (rev (broker_middlewares self)) raw [] return_input w = ((entered, stack, rm), w1)"
    by (metis prod.exhaust)
  obtain block w2 where
    b: "(case entered of Some e \<Rightarrow> (Inl e, w1) | None \<Rightarrow> parse_and_return pr rm raw w1) = (block, w2)"
    by (metis prod.exhaust)
  obtain exc sp pend w3 where
    x: "aexit_stack stack (case block of Inl e \<Rightarrow> Some e | Inr v \<Rightarrow> None) False False w2
          = ((exc, sp, pend), w3)"
    by (metis prod.exhaust)
  from assms e b x have "sp"
    by (auto simp: scoped_response_def split: bool.splits option.splits sum.splits if_splits)
  with x have "\<exists>cb \<in> set stack. \<exists>e w1. fst (aexit cb e w1) = Inr True"
    using aexit_stack_suppressed by fastforce
  moreover from enter_middlewares_stack [OF e]
  have "set stack \<subseteq> (\<lambda>m. m raw) ` set (broker_middlewares self)" by simp
  ultimately show ?thesis by (fastforce simp: subset_iff image_iff)
qed

text \<open>
  C5: a call of \<open>request\<close> in which the producer's \<open>request\<close> returns a raw reply, the
  parser raises, and the one broker middleware's \<open>__aexit__\<close> suppresses the exception it
  is given. The exception leaves the block, the exit stack swallows it, and control
  reaches the guard after the block: \<open>request\<close> raises \<open>AssertionError("unreachable")\<close>
  instead of returning a parsed message.
\<close>

theorem request_reaches_unreachable_guard:
  "request gen_probe store0 (connected_publisher failing_parser_producer [broker_probe ''X'' True] [])
      args0 []
     = (Inl Unreachable,
        [''gen_cor_id'', ''X.publish_scope'', ''Producer.request'', ''X.enter'', ''parser'', ''X.exit''])"
  by (simp add: probe_defs call_defs)

end
